theory Spec2Isabelle
  imports Main "HOL-Library.Sublist" "HOL-Library.AList"
begin

section \<open>Django issue automation: the staged validation pipeline of main.py\<close>

text \<open>
  A shallow embedding of \<^verbatim>\<open>django-skill-correct/main.py\<close>.

  \<^item> A Python \<^verbatim>\<open>str\<close> is the list of its code points (\<^typ>\<open>int list\<close>); the literals of the
    program are written \<open>str ''...''\<close>.
  \<^item> What Python knows about characters (white space, digits, letters, case) comes from
    the Unicode database of the interpreter, which is no file of the repository.  It is
    a parameter of the model, the record \<open>runtime\<close>; every property below that names a
    runtime \<open>rt\<close> holds for every such record, so also for the tables of the
    interpreter that runs the program.  Worked examples are run on ASCII texts with the
    record \<open>ascii_runtime\<close>, which is what CPython computes when all characters are
    ASCII; on a text with other characters \<open>ascii_runtime\<close> is not the interpreter.
  \<^item> The project on disk is a read-only snapshot: the working directory, the regular
    files below it (relative path and text, in the order a directory walk lists them)
    and the sub-directories of \<^verbatim>\<open>docs/\<close>.  A run is modelled on a snapshot all of whose
    reads succeed (every file decodes, and a \<^verbatim>\<open>pyproject.toml\<close>, if there is one, loads);
    on any other snapshot the program raises and returns no outcome.
  \<^item> The object \<^verbatim>\<open>DjangoIssueAutomation\<close> is a record; every method takes the object and
    returns it updated.  The attributes \<^verbatim>\<open>claude_config\<close>, \<^verbatim>\<open>project_dependencies\<close> and
    \<^verbatim>\<open>workflow_config\<close> are written by \<^verbatim>\<open>_deep_documentation_read\<close> and read by no stage;
    they and the progress messages printed to the terminal are left out.
\<close>

subsection \<open>Characters and strings\<close>

type_synonym pystr = "int list"

text \<open>The code point of an ASCII character and the string of an ASCII literal.\<close>

definition code :: "char \<Rightarrow> int" where
  "code c = of_char c"

definition str :: "string \<Rightarrow> pystr" where
  "str s = map code s"

definition nl :: int where
  "nl = 10"

definition dquote :: int where
  "dquote = 34"

definition squote :: int where
  "squote = 39"

text \<open>
  The character tables of the interpreter:
  \<^item> \<open>isspace\<close>: the characters \<^verbatim>\<open>str.strip\<close> removes, which are those the class \<^verbatim>\<open>\s\<close> matches;
  \<^item> \<open>isdecimal\<close>: the class \<^verbatim>\<open>\d\<close>;
  \<^item> \<open>isalnum\<close>: \<^verbatim>\<open>str.isalnum\<close> on one character; with the underscore it is the class \<^verbatim>\<open>\w\<close>;
  \<^item> \<open>str_lower\<close>, \<open>str_upper\<close>: the methods \<^verbatim>\<open>lower\<close> and \<^verbatim>\<open>upper\<close> of \<^verbatim>\<open>str\<close>;
  \<^item> \<open>ci_match a b\<close>: under \<^verbatim>\<open>re.I\<close> the pattern character \<open>a\<close> matches the text character \<open>b\<close>.
\<close>

record runtime =
  isspace :: "int \<Rightarrow> bool"
  isdecimal :: "int \<Rightarrow> bool"
  isalnum :: "int \<Rightarrow> bool"
  str_lower :: "pystr \<Rightarrow> pystr"
  str_upper :: "pystr \<Rightarrow> pystr"
  ci_match :: "int \<Rightarrow> int \<Rightarrow> bool"

text \<open>
  The tables of CPython on the ASCII range.  A character outside that range counts here
  as an uncased symbol, which is not what the interpreter does with all of them: the
  record stands for the interpreter on ASCII texts only.
\<close>

definition ascii_lower_char :: "int \<Rightarrow> int" where
  "ascii_lower_char c = (if 65 \<le> c \<and> c \<le> 90 then c + 32 else c)"

definition ascii_upper_char :: "int \<Rightarrow> int" where
  "ascii_upper_char c = (if 97 \<le> c \<and> c \<le> 122 then c - 32 else c)"

definition ascii_runtime :: runtime where
  "ascii_runtime =
     \<lparr>isspace = (\<lambda>c. c = 32 \<or> (9 \<le> c \<and> c \<le> 13) \<or> (28 \<le> c \<and> c \<le> 31)),
      isdecimal = (\<lambda>c. 48 \<le> c \<and> c \<le> 57),
      isalnum = (\<lambda>c. (48 \<le> c \<and> c \<le> 57) \<or> (65 \<le> c \<and> c \<le> 90) \<or> (97 \<le> c \<and> c \<le> 122)),
      str_lower = map ascii_lower_char,
      str_upper = map ascii_upper_char,
      ci_match = (\<lambda>a b. ascii_lower_char a = ascii_lower_char b)\<rparr>"

text \<open>The classes \<^verbatim>\<open>\w\<close>, \<^verbatim>\<open>[\w.]\<close> and \<^verbatim>\<open>[\w/\{\}]\<close>.\<close>

definition is_word :: "runtime \<Rightarrow> int \<Rightarrow> bool" where
  "is_word rt c = (isalnum rt c \<or> c = code CHR ''_'')"

definition is_dotword :: "runtime \<Rightarrow> int \<Rightarrow> bool" where
  "is_dotword rt c = (is_word rt c \<or> c = code CHR ''.'')"

definition is_path_char :: "runtime \<Rightarrow> int \<Rightarrow> bool" where
  "is_path_char rt c =
     (is_word rt c \<or> c = code CHR ''/'' \<or> c = code CHR ''{'' \<or> c = code CHR ''}'')"

text \<open>\<^verbatim>\<open>needle in hay\<close> on strings.\<close>

fun contains :: "'a list \<Rightarrow> 'a list \<Rightarrow> bool" where
  "contains needle [] = (needle = [])"
| "contains needle (c # cs) = (prefix needle (c # cs) \<or> contains needle cs)"

text \<open>\<^verbatim>\<open>hay.endswith(needle)\<close>.\<close>

definition endswith :: "pystr \<Rightarrow> pystr \<Rightarrow> bool" where
  "endswith hay needle = suffix needle hay"

text \<open>\<^verbatim>\<open>s.strip()\<close>.\<close>

definition strip :: "runtime \<Rightarrow> pystr \<Rightarrow> pystr" where
  "strip rt s = rev (dropWhile (isspace rt) (rev (dropWhile (isspace rt) s)))"

text \<open>\<^verbatim>\<open>s.split('\n')\<close>: never empty, a final newline gives a final empty line.\<close>

fun split_nl :: "pystr \<Rightarrow> pystr list" where
  "split_nl [] = [[]]"
| "split_nl (c # cs) =
     (if c = nl then [] # split_nl cs
      else (case split_nl cs of l # ls \<Rightarrow> (c # l) # ls | [] \<Rightarrow> [[c]]))"

text \<open>\<^verbatim>\<open>str(n)\<close> for a non-negative integer.\<close>

fun str_nat :: "nat \<Rightarrow> pystr" where
  "str_nat n = (if n < 10 then [48 + int n] else str_nat (n div 10) @ [48 + int (n mod 10)])"

declare str_nat.simps [simp del]

subsection \<open>Regular expressions of the program\<close>

text \<open>
  \<^verbatim>\<open>re.search\<close>: the anchored matcher \<open>m\<close> is tried at every position from the left,
  the end of the text included, and the first success is the match.
\<close>

fun re_search :: "(pystr \<Rightarrow> 'a option) \<Rightarrow> pystr \<Rightarrow> 'a option" where
  "re_search m [] = m []"
| "re_search m (c # cs) = (case m (c # cs) of Some r \<Rightarrow> Some r | None \<Rightarrow> re_search m cs)"

text \<open>A literal at the start of the text; the result is the text after it.\<close>

definition lit :: "pystr \<Rightarrow> pystr \<Rightarrow> pystr option" where
  "lit w s = (if prefix w s then Some (drop (length w) s) else None)"

text \<open>The same under \<^verbatim>\<open>re.I\<close>: character by character through \<open>ci_match\<close>.\<close>

fun lit_i :: "runtime \<Rightarrow> pystr \<Rightarrow> pystr \<Rightarrow> pystr option" where
  "lit_i rt [] s = Some s"
| "lit_i rt (a # w) [] = None"
| "lit_i rt (a # w) (b # s) = (if ci_match rt a b then lit_i rt w s else None)"

text \<open>
  An alternation of literals \<^verbatim>\<open>(a|b|c)\<close> that is the whole pattern: the first alternative
  that matches at the start of the text, with the text after it.
\<close>

fun alt :: "pystr list \<Rightarrow> pystr \<Rightarrow> (pystr \<times> pystr) option" where
  "alt [] s = None"
| "alt (w # ws) s = (case lit w s of Some r \<Rightarrow> Some (w, r) | None \<Rightarrow> alt ws s)"

text \<open>\<^verbatim>\<open>re.search(r'(a|b|c)', content)\<close>, group 1.\<close>

definition search_alt :: "pystr list \<Rightarrow> pystr \<Rightarrow> pystr option" where
  "search_alt ws content = map_option fst (re_search (alt ws) content)"

text \<open>The first alternative that succeeds, in the order the pattern tries them.\<close>

fun first_some :: "'a option list \<Rightarrow> 'a option" where
  "first_some [] = None"
| "first_some (None # xs) = first_some xs"
| "first_some (Some x # xs) = Some x"

text \<open>
  \<^verbatim>\<open>from\s+([\w.]+)\s+import\<close> at the start of the text: group 1 and the text after
  \<^verbatim>\<open>import\<close>.  In Python's tables no white space character is in \<^verbatim>\<open>[\w.]\<close> or matches the
  letter \<^verbatim>\<open>i\<close>, so each greedy run is the only way to match.  Neither \<^verbatim>\<open>\s\<close> nor
  \<^verbatim>\<open>[\w.]\<close> changes under \<^verbatim>\<open>re.I\<close>.
\<close>

definition match_from_import :: "runtime \<Rightarrow> bool \<Rightarrow> pystr \<Rightarrow> (pystr \<times> pystr) option" where
  "match_from_import rt ignore_case s =
     (case (if ignore_case then lit_i rt else lit) (str ''from'') s of
        None \<Rightarrow> None
      | Some r1 \<Rightarrow>
          let r2 = dropWhile (isspace rt) r1;
              g = takeWhile (is_dotword rt) r2;
              r3 = dropWhile (is_dotword rt) r2;
              r4 = dropWhile (isspace rt) r3
          in if takeWhile (isspace rt) r1 \<noteq> [] \<and> g \<noteq> [] \<and> takeWhile (isspace rt) r3 \<noteq> []
             then (case (if ignore_case then lit_i rt else lit) (str ''import'') r4 of
                     None \<Rightarrow> None
                   | Some r5 \<Rightarrow> Some (g, r5))
             else None)"

text \<open>The rest of the current line: what \<^verbatim>\<open>.*\<close> can run over.\<close>

definition line_rest :: "pystr \<Rightarrow> pystr" where
  "line_rest s = takeWhile (\<lambda>c. c \<noteq> nl) s"

text \<open>A literal under \<^verbatim>\<open>re.I\<close> somewhere in the text.\<close>

definition contains_i :: "runtime \<Rightarrow> pystr \<Rightarrow> pystr \<Rightarrow> bool" where
  "contains_i rt w s = list_ex (\<lambda>t. lit_i rt w t \<noteq> None) (suffixes s)"

text \<open>
  \<^verbatim>\<open>#(\d+)\<close> and \<^verbatim>\<open>issue\s+(\d+)\<close> (\<^verbatim>\<open>re.I\<close>) at the start of the text: group 1.  No
  character is white space and a decimal digit at once.
\<close>

definition match_hash_number :: "runtime \<Rightarrow> pystr \<Rightarrow> pystr option" where
  "match_hash_number rt s =
     (case lit (str ''#'') s of
        None \<Rightarrow> None
      | Some r \<Rightarrow>
          if takeWhile (isdecimal rt) r \<noteq> [] then Some (takeWhile (isdecimal rt) r) else None)"

definition match_issue_number :: "runtime \<Rightarrow> pystr \<Rightarrow> pystr option" where
  "match_issue_number rt s =
     (case lit_i rt (str ''issue'') s of
        None \<Rightarrow> None
      | Some r \<Rightarrow>
          let r' = dropWhile (isspace rt) r
          in if takeWhile (isspace rt) r \<noteq> [] \<and> takeWhile (isdecimal rt) r' \<noteq> []
             then Some (takeWhile (isdecimal rt) r') else None)"

text \<open>
  \<^verbatim>\<open>(GET|POST|PUT|PATCH|DELETE)\s+(/[\w/\{\}]+)\<close> under \<^verbatim>\<open>re.I\<close> at the start of the text:
  groups 1 and 2, and the text after the match.  The method names are tried in the
  order of the pattern, each with the rest of the pattern; the slash is no white space,
  so the greedy run of \<^verbatim>\<open>\s+\<close> is the only one that can be followed by the path, and the
  class of the path has no cased literal, so \<^verbatim>\<open>re.I\<close> leaves it as it is.
\<close>

definition http_methods :: "pystr list" where
  "http_methods = [str ''GET'', str ''POST'', str ''PUT'', str ''PATCH'', str ''DELETE'']"

definition endpoint_tail ::
  "runtime \<Rightarrow> pystr \<Rightarrow> pystr \<Rightarrow> ((pystr \<times> pystr) \<times> pystr) option" where
  "endpoint_tail rt m r =
     (case dropWhile (isspace rt) r of
        [] \<Rightarrow> None
      | c # r' \<Rightarrow>
          if takeWhile (isspace rt) r \<noteq> [] \<and> c = code CHR ''/'' \<and>
             takeWhile (is_path_char rt) r' \<noteq> []
          then Some ((m, c # takeWhile (is_path_char rt) r'), dropWhile (is_path_char rt) r')
          else None)"

definition match_endpoint :: "runtime \<Rightarrow> pystr \<Rightarrow> ((pystr \<times> pystr) \<times> pystr) option" where
  "match_endpoint rt s =
     first_some (map (\<lambda>w. case lit_i rt w s of
                            None \<Rightarrow> None
                          | Some r \<Rightarrow> endpoint_tail rt (take (length w) s) r)
                     http_methods)"

lemma lit_i_length: "lit_i rt w s = Some r \<Longrightarrow> length r \<le> length s"
  by (induction rt w s rule: lit_i.induct) (auto split: if_splits)

lemma first_some_in: "first_some xs = Some y \<Longrightarrow> Some y \<in> set xs"
  by (induction xs rule: first_some.induct) auto

lemma endpoint_tail_shorter:
  assumes "endpoint_tail rt m r = Some (g, rest)"
  shows "length rest < length r"
proof -
  from assms obtain c r' where
    d: "dropWhile (isspace rt) r = c # r'" and
    rest: "rest = dropWhile (is_path_char rt) r'"
    by (auto simp: endpoint_tail_def split: list.splits if_splits)
  have "length rest \<le> length r'"
    unfolding rest by (rule length_dropWhile_le)
  also have "length r' < length (dropWhile (isspace rt) r)"
    by (simp add: d)
  also have "\<dots> \<le> length r"
    by (rule length_dropWhile_le)
  finally show ?thesis .
qed

lemma match_endpoint_shorter:
  assumes "match_endpoint rt s = Some (g, rest)"
  shows "length rest < length s"
proof -
  from first_some_in[OF assms[unfolded match_endpoint_def]]
  obtain w r where "lit_i rt w s = Some r"
    and "endpoint_tail rt (take (length w) s) r = Some (g, rest)"
    by (auto split: option.splits)
  then show ?thesis
    using lit_i_length endpoint_tail_shorter by fastforce
qed

text \<open>\<^verbatim>\<open>re.finditer\<close> of the endpoint pattern: the matches from the left, without overlap.\<close>

function finditer_endpoints :: "runtime \<Rightarrow> pystr \<Rightarrow> (pystr \<times> pystr) list" where
  "finditer_endpoints rt [] = []"
| "finditer_endpoints rt (c # cs) =
     (case match_endpoint rt (c # cs) of
        None \<Rightarrow> finditer_endpoints rt cs
      | Some (g, rest) \<Rightarrow> g # finditer_endpoints rt rest)"
  by pat_completeness auto
termination
  by (relation "measure (\<lambda>(rt, s). length s)") (auto dest: match_endpoint_shorter)

subsection \<open>The issue model\<close>

record endpoint =
  ep_method :: pystr
  ep_path :: pystr

record issue_data =
  description :: pystr
  number :: "pystr option"
  requirements :: "pystr list"
  has_pii :: bool
  needs_auth :: bool
  endpoints :: "endpoint list"
  models :: "pystr list"

text \<open>
  The dictionary \<^verbatim>\<open>{}\<close> of \<^verbatim>\<open>__init__\<close>, read through \<^verbatim>\<open>.get\<close> with the defaults the
  program gives.
\<close>

definition empty_issue_data :: issue_data where
  "empty_issue_data =
     \<lparr>description = [], number = None, requirements = [], has_pii = False,
      needs_auth = False, endpoints = [], models = []\<rparr>"

text \<open>The bullet U+2022.\<close>

definition bullet :: pystr where
  "bullet = [0x2022]"

text \<open>
  One line of the requirement loop: a stripped line that starts with \<^verbatim>\<open>-\<close>, \<^verbatim>\<open>*\<close> or the
  bullet gives the text after that first character, stripped.
\<close>

definition requirement_of :: "runtime \<Rightarrow> pystr \<Rightarrow> pystr option" where
  "requirement_of rt line =
     (let t = strip rt line
      in if prefix (str ''-'') t \<or> prefix (str ''*'') t \<or> prefix bullet t
         then Some (strip rt (drop 1 t))
         else None)"

definition pii_keywords :: "pystr list" where
  "pii_keywords =
     [str ''personal'', str ''pii'', str ''email'', str ''phone'', str ''ssn'', str ''payment'']"

definition issue_number_of :: "runtime \<Rightarrow> pystr \<Rightarrow> pystr option" where
  "issue_number_of rt d =
     (case re_search (match_hash_number rt) d of
        Some n \<Rightarrow> Some n
      | None \<Rightarrow> re_search (match_issue_number rt) d)"

text \<open>\<^verbatim>\<open>_parse_issue\<close>.  Nothing in it writes the key \<^verbatim>\<open>models\<close> after the initial \<^verbatim>\<open>[]\<close>.\<close>

definition parse_issue :: "runtime \<Rightarrow> pystr \<Rightarrow> issue_data" where
  "parse_issue rt d =
     \<lparr>description = d,
      number = issue_number_of rt d,
      requirements = List.map_filter (requirement_of rt) (split_nl d),
      has_pii = list_ex (\<lambda>kw. contains kw (str_lower rt d)) pii_keywords,
      needs_auth = False,
      endpoints = map (\<lambda>(m, p). \<lparr>ep_method = str_upper rt m, ep_path = p\<rparr>)
                      (finditer_endpoints rt d),
      models = []\<rparr>"

subsection \<open>Dictionaries\<close>

text \<open>
  The configuration dictionaries hold strings and the flag \<^verbatim>\<open>True\<close> under string keys.
  They are association lists in insertion order; \<^verbatim>\<open>d[k] = v\<close> is \<^const>\<open>AList.update\<close>,
  \<^verbatim>\<open>d.get(k)\<close> is \<^const>\<open>map_of\<close> and the truth value of a dictionary is \<open>d \<noteq> []\<close>.
\<close>

datatype pyval = PyStr pystr | PyBool bool

type_synonym pydict = "(pystr \<times> pyval) list"

text \<open>The truth value of \<^verbatim>\<open>d.get(k)\<close>.\<close>

fun truthy :: "pyval option \<Rightarrow> bool" where
  "truthy None = False"
| "truthy (Some (PyStr s)) = (s \<noteq> [])"
| "truthy (Some (PyBool b)) = b"

text \<open>\<^verbatim>\<open>str(v)\<close>, as an f-string prints a value.\<close>

fun format_val :: "pyval \<Rightarrow> pystr" where
  "format_val (PyStr s) = s"
| "format_val (PyBool b) = (if b then str ''True'' else str ''False'')"

text \<open>\<^verbatim>\<open>d.get(k, default)\<close> printed.\<close>

definition get_or :: "pydict \<Rightarrow> pystr \<Rightarrow> pystr \<Rightarrow> pystr" where
  "get_or d k dflt = (case map_of d k of Some v \<Rightarrow> format_val v | None \<Rightarrow> dflt)"

subsection \<open>The project on disk\<close>

record project =
  root :: pystr
  files :: "(pystr \<times> pystr) list"
  docs_dirs :: "pystr list"

text \<open>\<^verbatim>\<open>str(self.project_root / rel)\<close>, \<^verbatim>\<open>path.name\<close> and the two kinds of \<^verbatim>\<open>glob\<close> in use.\<close>

definition full_path :: "project \<Rightarrow> pystr \<Rightarrow> pystr" where
  "full_path p rel = (if root p = str ''/'' then (str ''/'') @ rel else root p @ str ''/'' @ rel)"

definition basename :: "pystr \<Rightarrow> pystr" where
  "basename rel = rev (takeWhile (\<lambda>c. c \<noteq> code CHR ''/'') (rev rel))"

definition glob_py :: "project \<Rightarrow> (pystr \<times> pystr) list" where
  "glob_py p = filter (\<lambda>(rel, content). endswith (basename rel) (str ''.py'')) (files p)"

definition glob_named :: "project \<Rightarrow> pystr \<Rightarrow> (pystr \<times> pystr) list" where
  "glob_named p name = filter (\<lambda>(rel, content). basename rel = name) (files p)"

text \<open>\<^verbatim>\<open>path.read_text()\<close> behind \<^verbatim>\<open>path.exists()\<close>.\<close>

definition read_text :: "project \<Rightarrow> pystr \<Rightarrow> pystr option" where
  "read_text p rel = map_of (files p) rel"

subsection \<open>Findings, discrepancies and the object\<close>

datatype issue_type = TODO | DEPRECATED | SECURITY | BUG | PERFORMANCE | DOCUMENTATION

record unrelated_issue =
  ui_type :: issue_type
  ui_file :: pystr
  ui_line :: nat
  ui_description :: pystr
  ui_severity :: pystr

record documentation_discrepancy =
  doc_file :: pystr
  doc_statement :: pystr
  actual_code :: pystr
  suggestion :: pystr

record automation =
  feature_docs :: "(pystr \<times> (pystr \<times> pystr) list) list"
  pii_config :: pydict
  magika_config :: pydict
  logging_config :: pydict
  issue_data :: issue_data
  unrelated_issues :: "unrelated_issue list"
  doc_discrepancies :: "documentation_discrepancy list"

text \<open>\<^verbatim>\<open>__init__\<close>.\<close>

definition init_automation :: automation where
  "init_automation =
     \<lparr>feature_docs = [], pii_config = [], magika_config = [], logging_config = [],
      issue_data = empty_issue_data, unrelated_issues = [], doc_discrepancies = []\<rparr>"

subsection \<open>Reading the documentation\<close>

text \<open>\<^verbatim>\<open>_parse_pii_docs\<close>.\<close>

definition parse_pii_docs :: "runtime \<Rightarrow> pystr \<Rightarrow> pydict" where
  "parse_pii_docs rt content =
     (let config = [];
          config = (case search_alt [str ''GlobalPIIMasker'', str ''PIIMasker'', str ''mask_pii'']
                           content of
                      Some g \<Rightarrow> AList.update (str ''masking_function'') (PyStr g) config
                    | None \<Rightarrow> config);
          config = (case re_search (match_from_import rt False) content of
                      Some (g, r) \<Rightarrow> AList.update (str ''import_from'') (PyStr g) config
                    | None \<Rightarrow> config);
          config = (if contains (str ''email'') (str_lower rt content)
                    then AList.update (str ''mask_email'') (PyBool True) config else config);
          config = (if contains (str ''phone'') (str_lower rt content)
                    then AList.update (str ''mask_phone'') (PyBool True) config else config);
          config = (if contains (str ''ssn'') (str_lower rt content) \<or>
                       contains (str ''social'') (str_lower rt content)
                    then AList.update (str ''mask_ssn'') (PyBool True) config else config)
      in config)"

text \<open>\<^verbatim>\<open>from\s+([\w.]+)\s+import.*magika\<close> under \<^verbatim>\<open>re.I\<close> at the start of the text.\<close>

definition match_magika_import :: "runtime \<Rightarrow> pystr \<Rightarrow> pystr option" where
  "match_magika_import rt s =
     (case match_from_import rt True s of
        None \<Rightarrow> None
      | Some (g, r) \<Rightarrow> if contains_i rt (str ''magika'') (line_rest r) then Some g else None)"

text \<open>\<^verbatim>\<open>_parse_magika_docs\<close>.\<close>

definition parse_magika_docs :: "runtime \<Rightarrow> pystr \<Rightarrow> pydict" where
  "parse_magika_docs rt content =
     (let config = [];
          config = (case search_alt [str ''validate_with_magika'', str ''magika_validate'',
                                     str ''MagikaValidator'']
                           content of
                      Some g \<Rightarrow> AList.update (str ''validation_function'') (PyStr g) config
                    | None \<Rightarrow> config);
          config = (if contains (str ''upload'') (str_lower rt content)
                    then AList.update (str ''validate_uploads'') (PyBool True) config else config);
          config = (if contains (str ''attachment'') (str_lower rt content)
                    then AList.update (str ''validate_attachments'') (PyBool True) config
                    else config);
          config = (case re_search (match_magika_import rt) content of
                      Some g \<Rightarrow> AList.update (str ''import_from'') (PyStr g) config
                    | None \<Rightarrow> config)
      in config)"

text \<open>\<^verbatim>\<open>format["\']?\s*[:=]\s*["\']([^"\']+)\<close> at the start of the text: group 1.\<close>

definition is_quote :: "int \<Rightarrow> bool" where
  "is_quote c = (c = dquote \<or> c = squote)"

definition match_log_format :: "runtime \<Rightarrow> pystr \<Rightarrow> pystr option" where
  "match_log_format rt s =
     (case lit (str ''format'') s of
        None \<Rightarrow> None
      | Some r1 \<Rightarrow>
          let r2 = (case r1 of [] \<Rightarrow> r1 | c # r \<Rightarrow> if is_quote c then r else r1)
          in (case dropWhile (isspace rt) r2 of
                [] \<Rightarrow> None
              | c # r3 \<Rightarrow>
                  if c = code CHR '':'' \<or> c = code CHR ''=''
                  then (case dropWhile (isspace rt) r3 of
                          [] \<Rightarrow> None
                        | q # r4 \<Rightarrow>
                            if is_quote q \<and> takeWhile (\<lambda>c. \<not> is_quote c) r4 \<noteq> []
                            then Some (takeWhile (\<lambda>c. \<not> is_quote c) r4) else None)
                  else None))"

text \<open>\<^verbatim>\<open>from\s+([\w.]+)\s+import.*[Ll]ogger\<close> at the start of the text.\<close>

definition match_logger_import :: "runtime \<Rightarrow> pystr \<Rightarrow> pystr option" where
  "match_logger_import rt s =
     (case match_from_import rt False s of
        None \<Rightarrow> None
      | Some (g, r) \<Rightarrow>
          if contains (str ''Logger'') (line_rest r) \<or> contains (str ''logger'') (line_rest r)
          then Some g else None)"

text \<open>\<^verbatim>\<open>_parse_logging_docs\<close>.\<close>

definition parse_logging_docs :: "runtime \<Rightarrow> pystr \<Rightarrow> pydict" where
  "parse_logging_docs rt content =
     (let config = [];
          config = (case search_alt [str ''get_logger'', str ''CentralizedLogger'', str ''Logger.get'']
                           content of
                      Some g \<Rightarrow> AList.update (str ''logger_function'') (PyStr g) config
                    | None \<Rightarrow> config);
          config = (case re_search (match_log_format rt) content of
                      Some g \<Rightarrow> AList.update (str ''log_format'') (PyStr g) config
                    | None \<Rightarrow> config);
          config = (case re_search (match_logger_import rt) content of
                      Some g \<Rightarrow> AList.update (str ''import_from'') (PyStr g) config
                    | None \<Rightarrow> config);
          config = (if contains (str ''debug'') (str_lower rt content)
                    then AList.update (str ''supports_debug'') (PyBool True) config else config);
          config = (if contains (str ''audit'') (str_lower rt content)
                    then AList.update (str ''has_audit_logging'') (PyBool True) config else config)
      in config)"

text \<open>
  \<^verbatim>\<open>_deep_documentation_read\<close>: a topic file that exists replaces the topic's dictionary,
  a missing one leaves it as it is.
\<close>

definition deep_documentation_read :: "runtime \<Rightarrow> project \<Rightarrow> automation \<Rightarrow> automation" where
  "deep_documentation_read rt p s =
     s\<lparr>pii_config :=
          (case read_text p (str ''docs/security/pii_masking.md'') of
             Some content \<Rightarrow> parse_pii_docs rt content | None \<Rightarrow> pii_config s),
       magika_config :=
          (case read_text p (str ''docs/validation/magika.md'') of
             Some content \<Rightarrow> parse_magika_docs rt content | None \<Rightarrow> magika_config s),
       logging_config :=
          (case read_text p (str ''docs/infrastructure/logging.md'') of
             Some content \<Rightarrow> parse_logging_docs rt content | None \<Rightarrow> logging_config s)\<rparr>"

subsection \<open>Feature documentation\<close>

definition feature_keywords :: "pystr list" where
  "feature_keywords =
     [str ''user'', str ''auth'', str ''payment'', str ''profile'', str ''api'', str ''admin'',
      str ''report'', str ''notification'']"

text \<open>The list \<^verbatim>\<open>features\<close> of \<^verbatim>\<open>_extract_feature_names\<close> before \<^verbatim>\<open>list(set(features))\<close>.\<close>

definition feature_candidates :: "runtime \<Rightarrow> project \<Rightarrow> automation \<Rightarrow> pystr list" where
  "feature_candidates rt p s =
     (let text_lower = str_lower rt (description (issue_data s))
      in filter (\<lambda>keyword. contains keyword text_lower) feature_keywords @
         filter (\<lambda>name. \<not> prefix (str ''.'') name \<and> contains name text_lower) (docs_dirs p))"

text \<open>
  \<^verbatim>\<open>_extract_feature_names\<close>.  Python does not fix the order in which a set of strings
  is listed (it changes with the hash seed of the process), so the listing is a
  parameter \<open>set_order\<close>; \<^const>\<open>remdups\<close> is one such listing.
\<close>

definition extract_feature_names ::
  "(pystr list \<Rightarrow> pystr list) \<Rightarrow> runtime \<Rightarrow> project \<Rightarrow> automation \<Rightarrow> pystr list"
  where
  "extract_feature_names set_order rt p s = set_order (feature_candidates rt p s)"

text \<open>What a listing of a set has to do: each element once.\<close>

definition lists_sets :: "(pystr list \<Rightarrow> pystr list) \<Rightarrow> bool" where
  "lists_sets set_order = (\<forall>xs. distinct (set_order xs) \<and> set (set_order xs) = set xs)"

text \<open>The files \<^verbatim>\<open>*.md\<close> directly inside \<^verbatim>\<open>docs/<feature>\<close>, by name, and \<^verbatim>\<open>path.stem\<close>.\<close>

definition md_files :: "project \<Rightarrow> pystr \<Rightarrow> (pystr \<times> pystr) list" where
  "md_files p feature =
     concat (map (\<lambda>(rel, content).
        (case lit ((str ''docs/'') @ feature @ str ''/'') rel of
           None \<Rightarrow> []
         | Some name \<Rightarrow>
             if \<not> contains (str ''/'') name \<and> endswith name (str ''.md'')
             then [(name, content)] else []))
      (files p))"

definition stem_md :: "pystr \<Rightarrow> pystr" where
  "stem_md name = (if 3 < length name then take (length name - 3) name else name)"

text \<open>
  \<^verbatim>\<open>_read_feature_documentation\<close>.  The hooks \<^verbatim>\<open>_validate_api_docs\<close>, \<^verbatim>\<open>_validate_model_docs\<close>
  and \<^verbatim>\<open>_validate_implementation_docs\<close> end in methods whose body is \<^verbatim>\<open>pass\<close>: they
  change nothing and return nothing, so they do not appear.
\<close>

definition read_feature_documentation ::
  "(pystr list \<Rightarrow> pystr list) \<Rightarrow> runtime \<Rightarrow> project \<Rightarrow> automation \<Rightarrow> automation"
  where
  "read_feature_documentation set_order rt p s =
     s\<lparr>feature_docs :=
          fold (\<lambda>feature docs.
                  if feature \<in> set (docs_dirs p)
                  then AList.update feature
                         (fold (\<lambda>(name, content). AList.update (stem_md name) content)
                               (md_files p feature) [])
                         docs
                  else docs)
               (extract_feature_names set_order rt p s) (feature_docs s)\<rparr>"

subsection \<open>The consistency checker\<close>

definition pii_words :: "pystr list" where
  "pii_words = [str ''email'', str ''phone'', str ''ssn'', str ''personal'']"

text \<open>The body of the loop of \<^verbatim>\<open>_validate_pii_usage\<close> for one file.\<close>

definition validate_pii_file ::
  "runtime \<Rightarrow> project \<Rightarrow> pydict \<Rightarrow> pystr \<times> pystr \<Rightarrow> documentation_discrepancy list"
  where
  "validate_pii_file rt p config f =
     (case f of (rel, content) \<Rightarrow>
        if contains (str ''test'') (full_path p rel) then []
        else if list_ex (\<lambda>word. contains word (str_lower rt content)) pii_words
        then (let masker = get_or config (str ''masking_function'') (str ''GlobalPIIMasker'')
              in if \<not> contains masker content
                 then [\<lparr>doc_file = str ''docs/security/pii_masking.md'',
                        doc_statement = str ''All PII should use '' @ masker,
                        actual_code = basename rel @ str '' handles PII but doesn'' @ [squote] @
                                      str ''t import '' @ masker,
                        suggestion = str ''Add: from '' @
                                     get_or config (str ''import_from'') (str ''utils.pii'') @
                                     str '' import '' @ masker\<rparr>]
                 else [])
        else [])"

definition validate_pii_usage :: "runtime \<Rightarrow> project \<Rightarrow> automation \<Rightarrow> automation" where
  "validate_pii_usage rt p s =
     s\<lparr>doc_discrepancies :=
          doc_discrepancies s @ concat (map (validate_pii_file rt p (pii_config s)) (glob_py p))\<rparr>"

text \<open>The body of the loop of \<^verbatim>\<open>_validate_magika_usage\<close> for one file \<^verbatim>\<open>views.py\<close>.\<close>

definition validate_magika_file ::
  "pydict \<Rightarrow> pystr \<times> pystr \<Rightarrow> documentation_discrepancy list" where
  "validate_magika_file config f =
     (case f of (rel, content) \<Rightarrow>
        if contains (str ''FileField'') content \<or> contains (str ''ImageField'') content \<or>
           contains (str ''request.FILES'') content
        then (let validator =
                    get_or config (str ''validation_function'') (str ''validate_with_magika'')
              in if \<not> contains validator content
                 then [\<lparr>doc_file = str ''docs/validation/magika.md'',
                        doc_statement = str ''All file uploads should use '' @ validator,
                        actual_code = basename rel @ str '' handles files but doesn'' @ [squote] @
                                      str ''t call '' @ validator,
                        suggestion = str ''Add validation: '' @ validator @
                                     str ''(uploaded_file)''\<rparr>]
                 else [])
        else [])"

definition validate_magika_usage :: "project \<Rightarrow> automation \<Rightarrow> automation" where
  "validate_magika_usage p s =
     s\<lparr>doc_discrepancies :=
          doc_discrepancies s @
          concat (map (validate_magika_file (magika_config s)) (glob_named p (str ''views.py'')))\<rparr>"

text \<open>The body of the loop of \<^verbatim>\<open>_validate_logging_usage\<close> for one file.\<close>

definition validate_logging_file ::
  "project \<Rightarrow> pydict \<Rightarrow> pystr \<times> pystr \<Rightarrow> documentation_discrepancy list" where
  "validate_logging_file p config f =
     (case f of (rel, content) \<Rightarrow>
        if contains (str ''test'') (full_path p rel) \<or>
           contains (str ''migration'') (full_path p rel)
        then []
        else if contains (str ''print('') content \<or> contains (str ''logging.info'') content
        then (let logger = get_or config (str ''logger_function'') (str ''get_logger'')
              in if \<not> contains logger content
                 then [\<lparr>doc_file = str ''docs/infrastructure/logging.md'',
                        doc_statement = str ''Use centralized logging with '' @ logger,
                        actual_code = basename rel @ str '' uses print/basic logging instead of '' @
                                      logger,
                        suggestion = str ''Replace with: logger = '' @ logger @ str ''(__name__)''\<rparr>]
                 else [])
        else [])"

definition validate_logging_usage :: "project \<Rightarrow> automation \<Rightarrow> automation" where
  "validate_logging_usage p s =
     s\<lparr>doc_discrepancies :=
          doc_discrepancies s @
          concat (map (validate_logging_file p (logging_config s)) (glob_py p))\<rparr>"

text \<open>
  \<^verbatim>\<open>_validate_documentation_against_code\<close>.  Its last loop calls
  \<^verbatim>\<open>_check_doc_code_consistency\<close>, which hands every name it finds in a code fence to
  \<^verbatim>\<open>_verify_function_exists\<close> or \<^verbatim>\<open>_verify_class_exists\<close>; both are \<^verbatim>\<open>pass\<close>, so the loop
  leaves the object as it is.
\<close>

definition validate_documentation_against_code ::
  "runtime \<Rightarrow> project \<Rightarrow> automation \<Rightarrow> automation" where
  "validate_documentation_against_code rt p s =
     (let s = (if truthy (map_of (pii_config s) (str ''masking_function''))
               then validate_pii_usage rt p s else s);
          s = (if truthy (map_of (magika_config s) (str ''validation_function''))
               then validate_magika_usage p s else s);
          s = (if truthy (map_of (logging_config s) (str ''logger_function''))
               then validate_logging_usage p s else s)
      in s)"

subsection \<open>The issue scanner\<close>

text \<open>The content rules of \<^verbatim>\<open>_scan_for_unrelated_issues\<close> on one line, in their order.\<close>

definition scan_line :: "runtime \<Rightarrow> pystr \<Rightarrow> nat \<Rightarrow> pystr \<Rightarrow> unrelated_issue list" where
  "scan_line rt rel line_num line =
     (if contains (str ''TODO'') line \<or> contains (str ''FIXME'') line
      then [\<lparr>ui_type = TODO, ui_file = rel, ui_line = line_num,
             ui_description = strip rt line, ui_severity = str ''low''\<rparr>]
      else []) @
     (if contains (str ''deprecated'') (str_lower rt line) \<or> contains (str ''@deprecated'') line
      then [\<lparr>ui_type = DEPRECATED, ui_file = rel, ui_line = line_num,
             ui_description = str ''Using deprecated function/method'',
             ui_severity = str ''medium''\<rparr>]
      else []) @
     (if contains (str ''eval('') line \<or> contains (str ''exec('') line
      then [\<lparr>ui_type = SECURITY, ui_file = rel, ui_line = line_num,
             ui_description = str ''Potential security issue: eval/exec usage'',
             ui_severity = str ''high''\<rparr>]
      else []) @
     (if contains (str ''.format('') line \<and> contains (str ''SELECT'') (str_upper rt line)
      then [\<lparr>ui_type = SECURITY, ui_file = rel, ui_line = line_num,
             ui_description = str ''Potential SQL injection: string formatting in query'',
             ui_severity = str ''critical''\<rparr>]
      else []) @
     (if contains (str ''password='') (str_lower rt line) \<and> contains [dquote] line
      then (if \<not> contains (str ''getenv'') line \<and> \<not> contains (str ''environ'') line
            then [\<lparr>ui_type = SECURITY, ui_file = rel, ui_line = line_num,
                   ui_description = str ''Hardcoded password detected'',
                   ui_severity = str ''critical''\<rparr>]
            else [])
      else [])"

text \<open>One file: its lines, numbered from 1.\<close>

definition scan_file :: "runtime \<Rightarrow> pystr \<times> pystr \<Rightarrow> unrelated_issue list" where
  "scan_file rt f =
     (case f of (rel, content) \<Rightarrow>
        concat (map (\<lambda>(line_num, line). scan_line rt rel line_num line)
                    (enumerate 1 (split_nl content))))"

text \<open>\<^verbatim>\<open>_get_affected_files\<close>.\<close>

definition get_affected_files :: "project \<Rightarrow> automation \<Rightarrow> (pystr \<times> pystr) list" where
  "get_affected_files p s =
     (if models (issue_data s) \<noteq> [] then glob_named p (str ''models.py'') else []) @
     (if endpoints (issue_data s) \<noteq> []
      then glob_named p (str ''views.py'') @ glob_named p (str ''urls.py'') @
           glob_named p (str ''serializers.py'')
      else [])"

text \<open>\<^verbatim>\<open>_scan_for_unrelated_issues\<close>.\<close>

definition scan_for_unrelated_issues :: "runtime \<Rightarrow> project \<Rightarrow> automation \<Rightarrow> automation"
  where
  "scan_for_unrelated_issues rt p s =
     s\<lparr>unrelated_issues :=
          unrelated_issues s @ concat (map (scan_file rt) (get_affected_files p s))\<rparr>"

subsection \<open>Outcomes\<close>

text \<open>One constructor for each dictionary \<^verbatim>\<open>work_on_issue\<close> returns; its fields in order.\<close>

datatype outcome =
    DocumentationMismatch "documentation_discrepancy list" "pystr list" pystr
  | UnrelatedIssuesFound "unrelated_issue list" "unrelated_issue list"
                         "unrelated_issue list" "unrelated_issue list" "pystr list" pystr
  | NeedClarification "pystr list" pystr
  | BreakingChangesWarning "pystr list" pystr
  | ApprovalNeeded pystr pystr

text \<open>The entry \<^verbatim>\<open>"status"\<close>.\<close>

fun status :: "outcome \<Rightarrow> pystr" where
  "status (DocumentationMismatch ds qs msg) = str ''documentation_mismatch''"
| "status (UnrelatedIssuesFound c h m l opts msg) = str ''unrelated_issues_found''"
| "status (NeedClarification qs msg) = str ''need_clarification''"
| "status (BreakingChangesWarning cs msg) = str ''breaking_changes_warning''"
| "status (ApprovalNeeded plan msg) = str ''approval_needed''"

text \<open>The pictographs of the messages.\<close>

definition warning_sign :: pystr where
  "warning_sign = [0x26A0, 0xFE0F]"

definition check_mark :: pystr where
  "check_mark = [0x2705]"

definition red_circle :: pystr where
  "red_circle = [0x1F534]"

definition orange_circle :: pystr where
  "orange_circle = [0x1F7E0]"

definition yellow_circle :: pystr where
  "yellow_circle = [0x1F7E1]"

definition green_circle :: pystr where
  "green_circle = [0x1F7E2]"

text \<open>\<^verbatim>\<open>_handle_documentation_discrepancies\<close>.\<close>

definition discrepancy_questions :: "nat \<times> documentation_discrepancy \<Rightarrow> pystr list" where
  "discrepancy_questions x =
     (case x of (i, discrepancy) \<Rightarrow>
        [[nl] @ str_nat i @ str ''. Documentation says: '' @ doc_statement discrepancy,
         str ''   But I found: '' @ actual_code discrepancy,
         str ''   Should I: '' @ suggestion discrepancy @ str ''?''])"

definition handle_documentation_discrepancies :: "automation \<Rightarrow> outcome" where
  "handle_documentation_discrepancies s =
     (let ds = doc_discrepancies s;
          questions = [str ''I found discrepancies between documentation and actual code:'' @ [nl]];
          questions = questions @ concat (map discrepancy_questions (enumerate 1 (take 5 ds)));
          questions = (if 5 < length ds
                       then questions @
                            [[nl] @ str ''...and '' @ str_nat (length ds - 5) @
                             str '' more discrepancies.'']
                       else questions);
          questions = questions @
                      [[nl] @ str ''How should I handle these? Fix them, or follow existing code?'']
      in DocumentationMismatch ds questions
           ((str ''Documentation doesn'') @ [squote] @ str ''t match code - need guidance''))"

text \<open>\<^verbatim>\<open>_handle_unrelated_issues\<close>.\<close>

definition issue_preview :: "unrelated_issue \<Rightarrow> pystr" where
  "issue_preview issue =
     str ''  - '' @ ui_file issue @ str '':'' @ str_nat (ui_line issue) @ str '' - '' @
     ui_description issue @ [nl]"

definition handle_unrelated_issues :: "automation \<Rightarrow> outcome" where
  "handle_unrelated_issues s =
     (let critical = filter (\<lambda>i. ui_severity i = str ''critical'') (unrelated_issues s);
          high = filter (\<lambda>i. ui_severity i = str ''high'') (unrelated_issues s);
          medium = filter (\<lambda>i. ui_severity i = str ''medium'') (unrelated_issues s);
          low = filter (\<lambda>i. ui_severity i = str ''low'') (unrelated_issues s);
          message = str ''I found unrelated issues while reviewing the code:'' @ [nl];
          message = (if critical \<noteq> []
                     then message @ [nl] @ red_circle @ str '' CRITICAL ('' @
                          str_nat (length critical) @ str '' issues):'' @ [nl] @
                          concat (map issue_preview (take 2 critical))
                     else message);
          message = (if high \<noteq> []
                     then message @ [nl] @ orange_circle @ str '' HIGH ('' @
                          str_nat (length high) @ str '' issues):'' @ [nl] @
                          concat (map issue_preview (take 2 high))
                     else message);
          message = (if medium \<noteq> []
                     then message @ [nl] @ yellow_circle @ str '' MEDIUM ('' @
                          str_nat (length medium) @ str '' issues)'' @ [nl]
                     else message);
          message = (if low \<noteq> []
                     then message @ [nl] @ green_circle @ str '' LOW ('' @
                          str_nat (length low) @ str '' issues - mostly TODOs)'' @ [nl]
                     else message);
          options = [str ''1. Fix critical issues now, flag others in PR'',
                     str ''2. Create separate issues for all findings'',
                     str ''3. Flag all in PR comments for later'',
                     str ''4. Ignore for now (not recommended for critical issues)'',
                     str ''5. Let me handle each severity level differently'']
      in UnrelatedIssuesFound critical high medium low options
           (message @ [nl, nl] @ str ''How should I handle these? (Choose 1-5)''))"

subsection \<open>Clarification questions, breaking changes and the plan\<close>

text \<open>\<^verbatim>\<open>_get_clarification_questions\<close>.\<close>

definition get_clarification_questions :: "runtime \<Rightarrow> automation \<Rightarrow> pystr list" where
  "get_clarification_questions rt s =
     (if number (issue_data s) = None \<or> number (issue_data s) = Some []
      then [str ''What'' @ [squote] @ str ''s the issue number for branch naming?''] else []) @
     (if has_pii (issue_data s)
      then (if truthy (map_of (pii_config s) (str ''masking_function''))
            then [str ''Should I use '' @ get_or (pii_config s) (str ''masking_function'') [] @
                  str '' for PII as documented?'']
            else [str ''How should PII be handled? I didn'' @ [squote] @
                  str ''t find PII masking docs.''])
      else []) @
     (if contains (str ''upload'') (str_lower rt (description (issue_data s)))
      then (if truthy (map_of (magika_config s) (str ''validation_function''))
            then [str ''Should file uploads use '' @
                  get_or (magika_config s) (str ''validation_function'') [] @ str ''?'']
            else [str ''Should uploaded files be validated? I didn'' @ [squote] @
                  str ''t find Magika docs.''])
      else []) @
     (if \<not> truthy (map_of (logging_config s) (str ''logger_function''))
      then [str ''What logging system should I use? I didn'' @ [squote] @
            str ''t find centralized logging docs.'']
      else [])"

text \<open>\<^verbatim>\<open>_check_breaking_changes\<close>.\<close>

definition check_breaking_changes :: "project \<Rightarrow> automation \<Rightarrow> pystr list" where
  "check_breaking_changes p s =
     concat (map (\<lambda>model.
        concat (map (\<lambda>(rel, content).
           if contains ((str ''class '') @ model) content
           then [str ''Model '' @ [squote] @ model @ [squote] @ str '' already exists in '' @ rel]
           else [])
         (glob_named p (str ''models.py''))))
      (models (issue_data s)))"

text \<open>The lines of a triple-quoted text, each with its newline.\<close>

definition text_block :: "pystr list \<Rightarrow> pystr" where
  "text_block ls = concat (map (\<lambda>l. l @ [nl]) ls)"

text \<open>
  \<^verbatim>\<open>_create_validated_plan\<close>.  The key \<^verbatim>\<open>number\<close> is in the dictionary once the issue is
  parsed, so a missing number prints as \<^verbatim>\<open>None\<close>.
\<close>

definition create_validated_plan :: "runtime \<Rightarrow> automation \<Rightarrow> pystr" where
  "create_validated_plan rt s =
     (let plan = text_block
            [str ''# Implementation Plan (Validated Against Documentation)'',
             [],
             str ''## Issue Details'',
             str ''- Number: #'' @
               (case number (issue_data s) of Some n \<Rightarrow> n | None \<Rightarrow> str ''None''),
             str ''- Has PII: '' @ (if has_pii (issue_data s) then (str ''Yes'') else (str ''No'')),
             [],
             str ''## Documentation Validation Status'',
             str ''- '' @ check_mark @ str '' Read '' @ str_nat (length (feature_docs s)) @
               str '' feature documentation folders'',
             str ''- '' @ check_mark @ str '' Validated against existing code'',
             str ''- '' @ check_mark @ str '' Checked for unrelated issues''];
          plan = (if has_pii (issue_data s) \<and> pii_config s \<noteq> []
                  then plan @ text_block
                    [[],
                     str ''## PII Handling (Per Documentation)'',
                     str ''- Will use: '' @
                       get_or (pii_config s) (str ''masking_function'') (str ''GlobalPIIMasker''),
                     str ''- Import from: '' @
                       get_or (pii_config s) (str ''import_from'') (str ''utils.pii''),
                     str ''- Fields to mask: email, phone, SSN'']
                  else plan);
          plan = (if contains (str ''upload'') (str_lower rt (description (issue_data s))) \<and>
                     magika_config s \<noteq> []
                  then plan @ text_block
                    [[],
                     str ''## File Validation (Per Documentation)  '',
                     str ''- Will use: '' @
                       get_or (magika_config s) (str ''validation_function'')
                         (str ''validate_with_magika''),
                     str ''- Import from: '' @
                       get_or (magika_config s) (str ''import_from'') (str ''utils.validation''),
                     str ''- Validate all uploads before processing'']
                  else plan);
          plan = (if logging_config s \<noteq> []
                  then plan @ text_block
                    [[],
                     str ''## Logging (Per Documentation)'',
                     str ''- Will use: '' @
                       get_or (logging_config s) (str ''logger_function'') (str ''get_logger''),
                     str ''- Import from: '' @
                       get_or (logging_config s) (str ''import_from'') (str ''utils.logging''),
                     str ''- No print statements, only centralized logging'']
                  else plan);
          critical_count =
            length (filter (\<lambda>i. ui_severity i = str ''critical'') (unrelated_issues s));
          plan = (if unrelated_issues s \<noteq> [] \<and> 0 < critical_count
                  then plan @ text_block
                    [[],
                     str ''## '' @ warning_sign @ str ''  Critical Issues Found (Will Flag in PR)'',
                     str ''- '' @ str_nat critical_count @
                       str '' critical security issues to address'',
                     str ''- Will add PR comments for tracking'']
                  else plan)
      in plan @ text_block
           [[],
            str ''## Implementation Steps'',
            str ''1. Create feature branch per workflow'',
            str ''2. Implement with documentation compliance'',
            str ''3. Use global PII masking where needed'',
            str ''4. Add Magika validation for uploads'',
            str ''5. Use centralized logging throughout'',
            str ''6. Generate tests (>85% coverage)'',
            str ''7. Flag any unrelated issues in PR'',
            str ''8. Create comprehensive documentation'',
            [],
            str ''## What I Will NOT Do'',
            str ''- Ignore documentation requirements'',
            str ''- Use print statements instead of logging'',
            str ''- Skip PII masking'',
            str ''- Allow unvalidated file uploads'',
            str ''- Leave critical issues unflagged'',
            [],
            str ''**This plan is validated against your documentation. Proceed? (yes/no)**''])"

subsection \<open>The pipeline controller\<close>

text \<open>
  The states of the object after step 4 (documentation read, issue parsed, feature
  documentation read, documentation validated) and after step 6 (affected files
  scanned) of the method \<^verbatim>\<open>work_on_issue\<close>.
\<close>

definition after_validation ::
  "(pystr list \<Rightarrow> pystr list) \<Rightarrow> runtime \<Rightarrow> project \<Rightarrow> pystr \<Rightarrow> automation \<Rightarrow>
   automation" where
  "after_validation set_order rt p issue_description s =
     (let s = deep_documentation_read rt p s;
          s = s\<lparr>issue_data := parse_issue rt issue_description\<rparr>;
          s = read_feature_documentation set_order rt p s
      in validate_documentation_against_code rt p s)"

definition after_scan ::
  "(pystr list \<Rightarrow> pystr list) \<Rightarrow> runtime \<Rightarrow> project \<Rightarrow> pystr \<Rightarrow> automation \<Rightarrow>
   automation" where
  "after_scan set_order rt p issue_description s =
     scan_for_unrelated_issues rt p (after_validation set_order rt p issue_description s)"

text \<open>The method \<^verbatim>\<open>DjangoIssueAutomation.work_on_issue\<close>: the outcome and the object.\<close>

definition automation_work_on_issue ::
  "(pystr list \<Rightarrow> pystr list) \<Rightarrow> runtime \<Rightarrow> project \<Rightarrow> pystr \<Rightarrow> automation \<Rightarrow>
   outcome \<times> automation" where
  "automation_work_on_issue set_order rt p issue_description s =
     (let s4 = after_validation set_order rt p issue_description s
      in if doc_discrepancies s4 \<noteq> [] then (handle_documentation_discrepancies s4, s4)
         else
           let s6 = scan_for_unrelated_issues rt p s4
           in if unrelated_issues s6 \<noteq> [] then (handle_unrelated_issues s6, s6)
              else
                let questions = get_clarification_questions rt s6
                in if questions \<noteq> []
                   then (NeedClarification questions
                           (str ''I need clarification on these points:''), s6)
                   else
                     let breaking_changes = check_breaking_changes p s6
                     in if breaking_changes \<noteq> []
                        then (BreakingChangesWarning breaking_changes
                                (warning_sign @
                                 str ''  These changes might break existing code. Continue?''), s6)
                        else (ApprovalNeeded (create_validated_plan rt s6)
                                ((str ''Implementation plan (validated against your docs). '') @
                                 str ''Proceed? (yes/no)''), s6))"

text \<open>The function \<^verbatim>\<open>work_on_issue\<close> of the module: a fresh object for every call.\<close>

definition work_on_issue ::
  "(pystr list \<Rightarrow> pystr list) \<Rightarrow> runtime \<Rightarrow> project \<Rightarrow> pystr \<Rightarrow> outcome" where
  "work_on_issue set_order rt p issue_description =
     fst (automation_work_on_issue set_order rt p issue_description init_automation)"

subsection \<open>Predicates of the properties\<close>

text \<open>
  \<^verbatim>\<open>re.search(endpoint_pattern, d, re.I)\<close> finds a match: the endpoint pattern of
  \<^verbatim>\<open>_parse_issue\<close> matches at some position of the text.
\<close>

definition has_endpoint_pattern :: "runtime \<Rightarrow> pystr \<Rightarrow> bool" where
  "has_endpoint_pattern rt d = list_ex (\<lambda>s. match_endpoint rt s \<noteq> None) (suffixes d)"

text \<open>
  What the endpoint pattern describes, without a matcher: somewhere in the text stands
  one of the method names, letter by letter up to case, then at least one white space
  character, a slash, and at least one character of the class \<^verbatim>\<open>[\w/\{\}]\<close>.
\<close>

definition endpoint_occurs :: "runtime \<Rightarrow> pystr \<Rightarrow> bool" where
  "endpoint_occurs rt d =
     (\<exists>before w m ws cs rest.
        d = before @ m @ ws @ [code CHR ''/''] @ cs @ rest \<and>
        w \<in> set http_methods \<and> list_all2 (ci_match rt) w m \<and>
        ws \<noteq> [] \<and> list_all (isspace rt) ws \<and>
        cs \<noteq> [] \<and> list_all (is_path_char rt) cs)"

text \<open>Findings by kind and severity, by description and by line.\<close>

definition is_security_critical :: "unrelated_issue \<Rightarrow> bool" where
  "is_security_critical i = (ui_type i = SECURITY \<and> ui_severity i = str ''critical'')"

definition is_hardcoded_password_finding :: "unrelated_issue \<Rightarrow> bool" where
  "is_hardcoded_password_finding i =
     (is_security_critical i \<and> ui_description i = str ''Hardcoded password detected'')"

definition on_line :: "nat \<Rightarrow> unrelated_issue \<Rightarrow> bool" where
  "on_line n i = (ui_line i = n)"

text \<open>
  The tests of the two critical rules of the scanner on one line: the hardcoded-password
  rule with its environment-lookup exception, and the SQL-injection rule.
\<close>

definition hardcoded_password_line :: "runtime \<Rightarrow> pystr \<Rightarrow> bool" where
  "hardcoded_password_line rt line =
     (contains (str ''password='') (str_lower rt line) \<and> contains [dquote] line \<and>
      \<not> contains (str ''getenv'') line \<and> \<not> contains (str ''environ'') line)"

definition sql_injection_line :: "runtime \<Rightarrow> pystr \<Rightarrow> bool" where
  "sql_injection_line rt line =
     (contains (str ''.format('') line \<and> contains (str ''SELECT'') (str_upper rt line))"

text \<open>The body of the loop of \<^verbatim>\<open>_read_feature_documentation\<close> for one feature name.\<close>

definition feature_step ::
  "project \<Rightarrow> pystr \<Rightarrow> (pystr \<times> (pystr \<times> pystr) list) list \<Rightarrow>
   (pystr \<times> (pystr \<times> pystr) list) list" where
  "feature_step p feature docs =
     (if feature \<in> set (docs_dirs p)
      then AList.update feature
             (fold (\<lambda>(name, content). AList.update (stem_md name) content)
                   (md_files p feature) []) docs
      else docs)"

text \<open>
  The object after validation without the feature documentation, and the feature
  documentation of a run on its own.
\<close>

definition validated_base :: "runtime \<Rightarrow> project \<Rightarrow> pystr \<Rightarrow> automation" where
  "validated_base rt p d =
     validate_documentation_against_code rt p
       ((deep_documentation_read rt p init_automation)\<lparr>issue_data := parse_issue rt d\<rparr>)"

definition features_read ::
  "(pystr list \<Rightarrow> pystr list) \<Rightarrow> runtime \<Rightarrow> project \<Rightarrow> pystr \<Rightarrow>
   (pystr \<times> (pystr \<times> pystr) list) list" where
  "features_read h rt p d =
     fold (feature_step p)
       (h (feature_candidates rt p
             ((deep_documentation_read rt p init_automation)\<lparr>issue_data := parse_issue rt d\<rparr>)))
       []"

text \<open>
  ASCII characters and texts, and the runtimes that agree with \<open>ascii_runtime\<close> on them,
  as the tables of CPython do.
\<close>

definition ascii_char :: "int \<Rightarrow> bool" where
  "ascii_char c = (0 \<le> c \<and> c < 128)"

definition ascii_text :: "pystr \<Rightarrow> bool" where
  "ascii_text s = list_all ascii_char s"

definition ascii_exact :: "runtime \<Rightarrow> bool" where
  "ascii_exact rt =
     ((\<forall>c. ascii_char c \<longrightarrow>
          isspace rt c = isspace ascii_runtime c \<and>
          isdecimal rt c = isdecimal ascii_runtime c \<and>
          isalnum rt c = isalnum ascii_runtime c \<and>
          (\<forall>a. ascii_char a \<longrightarrow> ci_match rt a c = ci_match ascii_runtime a c)) \<and>
      (\<forall>s. ascii_text s \<longrightarrow>
          str_lower rt s = str_lower ascii_runtime s \<and>
          str_upper rt s = str_upper ascii_runtime s))"

subsection \<open>Example projects and issues\<close>

text \<open>The issue text of the export scenario.\<close>

definition export_issue :: pystr where
  "export_issue = str ''Add endpoint POST /users/{id}/export - exports personal data, #42''"

text \<open>
  A project that documents upload validation and whose \<^verbatim>\<open>media/views.py\<close> reads
  \<^verbatim>\<open>request.FILES\<close> without the validator and carries a \<^verbatim>\<open>TODO\<close>.
\<close>

definition upload_project :: project where
  "upload_project =
     \<lparr>root = str ''/srv/shop'',
      files = [(str ''docs/validation/magika.md'',
                str ''Every upload must call validate_with_magika.''),
               (str ''media/views.py'',
                str ''def receive(request):'' @ [nl] @
                str ''    data = request.FILES  # TODO size check'')],
      docs_dirs = [str ''validation'']\<rparr>"

definition upload_issue :: pystr where
  "upload_issue = str ''Add endpoint POST /media/upload #7''"

text \<open>
  A project with logging documentation and a \<^verbatim>\<open>billing/models.py\<close> that declares
  \<^verbatim>\<open>class Invoice\<close>; an issue that asks for that model, and one that touches no topic.
\<close>

definition invoice_project :: project where
  "invoice_project =
     \<lparr>root = str ''/srv/shop'',
      files = [(str ''docs/infrastructure/logging.md'',
                str ''Use get_logger from utils.logging''),
               (str ''billing/models.py'',
                str ''class Invoice(models.Model):'' @ [nl] @
                str ''    total = models.IntegerField()'')],
      docs_dirs = [str ''infrastructure'']\<rparr>"

definition invoice_issue :: pystr where
  "invoice_issue = str ''Add a new model class Invoice for issue #12''"


text \<open>A project without any documentation, and an issue on uploads of personal photos.\<close>

definition users_project :: project where
  "users_project =
     \<lparr>root = str ''/srv/shop'',
      files = [(str ''users/views.py'',
                str ''def export(request, id):'' @ [nl] @ str ''    return stream(id)''),
               (str ''users/urls.py'', str ''urlpatterns = []'')],
      docs_dirs = []\<rparr>"


text \<open>
  A project that documents the masker and the logger and whose code complies; the issue
  names its PII keywords in upper case only.
\<close>

definition masked_project :: project where
  "masked_project =
     \<lparr>root = str ''/srv/shop'',
      files = [(str ''docs/security/pii_masking.md'',
                str ''Mask with GlobalPIIMasker:'' @ [nl] @
                str ''from utils.pii import GlobalPIIMasker''),
               (str ''docs/infrastructure/logging.md'',
                str ''Use get_logger from utils.logging''),
               (str ''users/views.py'',
                str ''def export(request, id):'' @ [nl] @ str ''    return stream(id)'')],
      docs_dirs = [str ''security'', str ''infrastructure'']\<rparr>"

definition mask_issue :: pystr where
  "mask_issue = str ''Mask PII and Email via POST /users/export #9''"

text \<open>
  A project whose \<^verbatim>\<open>media/views.py\<close> carries a \<^verbatim>\<open>TODO\<close>; an issue without an endpoint and
  one with an endpoint.
\<close>

definition todo_project :: project where
  "todo_project =
     \<lparr>root = str ''/srv/shop'',
      files = [(str ''docs/infrastructure/logging.md'',
                str ''Use get_logger from utils.logging''),
               (str ''media/views.py'',
                str ''# TODO tidy up'' @ [nl] @ str ''def index(request): pass'')],
      docs_dirs = [str ''infrastructure'']\<rparr>"

definition readme_issue :: pystr where
  "readme_issue = str ''Fix the typo in the README, issue 7''"

definition items_issue :: pystr where
  "items_issue = str ''Add POST /media/items, issue 7''"

text \<open>A project that documents upload validation and reads \<^verbatim>\<open>request.FILES\<close> in a test.\<close>

definition tests_project :: project where
  "tests_project =
     \<lparr>root = str ''/srv/shop'',
      files = [(str ''docs/validation/magika.md'',
                str ''Every upload must call validate_with_magika.''),
               (str ''tests/views.py'',
                str ''def fake_upload(request):'' @ [nl] @ str ''    return request.FILES'')],
      docs_dirs = [str ''validation'']\<rparr>"

text \<open>A project with feature documentation for two of the features the issue names.\<close>

definition catalog_project :: project where
  "catalog_project =
     \<lparr>root = str ''/srv/shop'',
      files = [(str ''docs/infrastructure/logging.md'',
                str ''Use get_logger from utils.logging''),
               (str ''docs/user/api.md'', str ''GET /users''),
               (str ''docs/api/models.md'', str ''class User(models.Model)'')],
      docs_dirs = [str ''infrastructure'', str ''user'', str ''api'']\<rparr>"

definition catalog_issue :: pystr where
  "catalog_issue = str ''Expose the user report through the api, issue 31''"

text \<open>A configuration with the three required symbols and a file that uses all of them.\<close>

definition masker_config :: pydict where
  "masker_config = [(str ''masking_function'', PyStr (str ''GlobalPIIMasker'')),
                    (str ''validation_function'', PyStr (str ''validate_with_magika'')),
                    (str ''logger_function'', PyStr (str ''get_logger''))]"

definition compliant_text :: pystr where
  "compliant_text =
     str ''from utils import GlobalPIIMasker, validate_with_magika, get_logger'' @ [nl] @
     str ''email = GlobalPIIMasker(request.FILES)'' @ [nl] @ str ''print(email)''"

text \<open>
  A file with a PII keyword, \<^verbatim>\<open>request.FILES\<close> and a \<^verbatim>\<open>print\<close> call that uses none of the
  symbols, and a project without any documentation that holds it.
\<close>

definition careless_text :: pystr where
  "careless_text = str ''email = request.FILES'' @ [nl] @ str ''print(email)''"


text \<open>
  A line that formats a \<^verbatim>\<open>SELECT\<close> statement and compares a password, and a settings file
  with a password literal on its second line.
\<close>

definition sql_password_line :: pystr where
  "sql_password_line =
     str ''cur.execute('' @ [dquote] @ str ''SELECT id FROM users WHERE password={}'' @
     [dquote] @ str ''.format(pw))''"

definition settings_text :: pystr where
  "settings_text =
     str ''import os'' @ [nl] @ str ''db = connect(user=name, password='' @ [dquote] @
     str ''hunter2'' @ [dquote] @ str '')  # TODO rotate''"

section \<open>Properties\<close>

subsection \<open>Strings\<close>

lemma code_eq_iff [simp]: "code a = code b \<longleftrightarrow> a = b"
  by (simp add: code_def)

lemma str_eq_iff [simp]: "str a = str b \<longleftrightarrow> a = b"
  by (simp add: str_def inj_map_eq_map inj_on_def)

lemma contains_sublist: "contains n h \<longleftrightarrow> sublist n h"
  by (induction h) (auto simp: sublist_Cons_right)

subsection \<open>What each step changes\<close>

lemma parse_issue_fields [simp]:
  "models (parse_issue rt d) = []"
  "description (parse_issue rt d) = d"
  "has_pii (parse_issue rt d) = list_ex (\<lambda>kw. contains kw (str_lower rt d)) pii_keywords"
  "number (parse_issue rt d) = issue_number_of rt d"
  by (simp_all add: parse_issue_def)

lemma validate_frame [simp]:
  "issue_data (validate_documentation_against_code rt p s) = issue_data s"
  "pii_config (validate_documentation_against_code rt p s) = pii_config s"
  "magika_config (validate_documentation_against_code rt p s) = magika_config s"
  "logging_config (validate_documentation_against_code rt p s) = logging_config s"
  "unrelated_issues (validate_documentation_against_code rt p s) = unrelated_issues s"
  "feature_docs (validate_documentation_against_code rt p s) = feature_docs s"
  by (simp_all add: validate_documentation_against_code_def validate_pii_usage_def
      validate_magika_usage_def validate_logging_usage_def Let_def)


lemma after_validation_issue_data [simp]:
  "issue_data (after_validation h rt p d s) = parse_issue rt d"
  by (simp add: after_validation_def Let_def read_feature_documentation_def)

lemma after_validation_frame:
  "pii_config (after_validation h rt p d s) = pii_config (deep_documentation_read rt p s)"
  "magika_config (after_validation h rt p d s) = magika_config (deep_documentation_read rt p s)"
  "logging_config (after_validation h rt p d s) = logging_config (deep_documentation_read rt p s)"
  "unrelated_issues (after_validation h rt p d s) = unrelated_issues s"
  by (simp_all add: after_validation_def Let_def read_feature_documentation_def
      deep_documentation_read_def)

lemma after_scan_frame [simp]:
  "issue_data (after_scan h rt p d s) = parse_issue rt d"
  "pii_config (after_scan h rt p d s) = pii_config (deep_documentation_read rt p s)"
  "magika_config (after_scan h rt p d s) = magika_config (deep_documentation_read rt p s)"
  "logging_config (after_scan h rt p d s) = logging_config (deep_documentation_read rt p s)"
  by (simp_all add: after_scan_def scan_for_unrelated_issues_def after_validation_frame)

lemma after_scan_unrelated:
  "unrelated_issues (after_scan h rt p d s) =
     unrelated_issues s @
     concat (map (scan_file rt) (get_affected_files p (after_validation h rt p d s)))"
  by (simp add: after_scan_def scan_for_unrelated_issues_def after_validation_frame)

lemma init_fields:
  "unrelated_issues init_automation = []"
  "doc_discrepancies init_automation = []"
  by (simp_all add: init_automation_def)

lemma no_pii_doc_config:
  "read_text p (str ''docs/security/pii_masking.md'') = None \<Longrightarrow>
   pii_config (deep_documentation_read rt p init_automation) = []"
  by (simp add: deep_documentation_read_def init_automation_def)

lemma check_breaking_changes_after_scan [simp]:
  "check_breaking_changes p (after_scan h rt p d s) = []"
  by (simp add: check_breaking_changes_def)

lemma status_handle_doc [simp]:
  "status (handle_documentation_discrepancies s) = str ''documentation_mismatch''"
  by (simp add: handle_documentation_discrepancies_def Let_def)

lemma status_handle_unrelated [simp]:
  "status (handle_unrelated_issues s) = str ''unrelated_issues_found''"
  by (simp add: handle_unrelated_issues_def Let_def)

text \<open>The controller as one chain of tests on the object after validation and after the scan.\<close>

lemma work_on_issue_cases:
  "work_on_issue h rt p d =
    (let s4 = after_validation h rt p d init_automation;
         s6 = after_scan h rt p d init_automation in
     if doc_discrepancies s4 \<noteq> [] then handle_documentation_discrepancies s4
     else if unrelated_issues s6 \<noteq> [] then handle_unrelated_issues s6
     else if get_clarification_questions rt s6 \<noteq> []
       then NeedClarification (get_clarification_questions rt s6)
              (str ''I need clarification on these points:'')
     else if check_breaking_changes p s6 \<noteq> []
       then BreakingChangesWarning (check_breaking_changes p s6)
              (warning_sign @ str ''  These changes might break existing code. Continue?'')
     else ApprovalNeeded (create_validated_plan rt s6)
            (str ''Implementation plan (validated against your docs). '' @
             str ''Proceed? (yes/no)''))"
  by (simp add: work_on_issue_def automation_work_on_issue_def after_scan_def Let_def)


subsection \<open>Priority of the documentation mismatch\<close>

text \<open>
  Claim C1.  When the validation of a run leaves a non-empty discrepancy list and the
  scanner has findings to report on the affected files of the same run, the controller
  returns the outcome with status \<^verbatim>\<open>documentation_mismatch\<close>, built from the discrepancies,
  and not the one with status \<^verbatim>\<open>unrelated_issues_found\<close>.
\<close>

theorem doc_mismatch_outranks_findings:
  assumes "doc_discrepancies (after_validation set_order rt p d init_automation) \<noteq> []"
    and "concat (map (scan_file rt)
           (get_affected_files p (after_validation set_order rt p d init_automation))) \<noteq> []"
  shows "work_on_issue set_order rt p d =
           handle_documentation_discrepancies
             (after_validation set_order rt p d init_automation) \<and>
         status (work_on_issue set_order rt p d) = str ''documentation_mismatch'' \<and>
         status (work_on_issue set_order rt p d) \<noteq> str ''unrelated_issues_found''"
  using assms(1) by (simp add: work_on_issue_cases Let_def)

text \<open>
  The run on \<open>upload_project\<close> and \<open>upload_issue\<close>: the validation reports the missing
  validator, the scan of the affected \<^verbatim>\<open>media/views.py\<close> would report the \<^verbatim>\<open>TODO\<close>, and the
  status is \<^verbatim>\<open>documentation_mismatch\<close>.
\<close>

theorem doc_mismatch_outranks_findings_witness:
  "doc_discrepancies
     (after_validation remdups ascii_runtime upload_project upload_issue init_automation) \<noteq> [] \<and>
   concat (map (scan_file ascii_runtime) (get_affected_files upload_project
     (after_validation remdups ascii_runtime upload_project upload_issue init_automation))) \<noteq> [] \<and>
   status (work_on_issue remdups ascii_runtime upload_project upload_issue) =
     str ''documentation_mismatch''"
proof -
  have a: "doc_discrepancies
     (after_validation remdups ascii_runtime upload_project upload_issue init_automation) \<noteq> []"
    by code_simp
  have b: "concat (map (scan_file ascii_runtime) (get_affected_files upload_project
     (after_validation remdups ascii_runtime upload_project upload_issue init_automation))) \<noteq> []"
    by code_simp
  show ?thesis
    using doc_mismatch_outranks_findings[OF a b] a b by simp
qed

subsection \<open>Breaking changes\<close>

text \<open>
  The check of \<^verbatim>\<open>_check_breaking_changes\<close> reports a model the issue names when a
  \<^verbatim>\<open>models.py\<close> declares a class of that name, but \<^verbatim>\<open>_parse_issue\<close> never records a model
  name, so no run ends with status \<^verbatim>\<open>breaking_changes_warning\<close>.
\<close>

lemma never_breaking_changes:
  "status (work_on_issue set_order rt p d) \<noteq> str ''breaking_changes_warning''"
  by (simp add: work_on_issue_cases Let_def)

text \<open>
  Claim C2, at an input where it fails.  The issue asks for a model \<^verbatim>\<open>Invoice\<close>,
  \<^verbatim>\<open>billing/models.py\<close> declares \<^verbatim>\<open>class Invoice\<close>, and the earlier stages are silent: the
  run ends with status \<^verbatim>\<open>approval_needed\<close> because the parsed issue names no model.  Had
  the parser recorded the name, the check would have reported it.
\<close>

theorem existing_model_not_reported:
  "contains (str ''class Invoice'')
     (case read_text invoice_project (str ''billing/models.py'') of
        Some content \<Rightarrow> content | None \<Rightarrow> []) \<and>
   status (work_on_issue remdups ascii_runtime invoice_project invoice_issue) =
     str ''approval_needed'' \<and>
   models (issue_data
     (after_scan remdups ascii_runtime invoice_project invoice_issue init_automation)) = [] \<and>
   check_breaking_changes invoice_project
     ((after_scan remdups ascii_runtime invoice_project invoice_issue init_automation)
        \<lparr>issue_data := (parse_issue ascii_runtime invoice_issue)\<lparr>models := [str ''Invoice'']\<rparr>\<rparr>) =
     [str ''Model '' @ [squote] @ str ''Invoice'' @ [squote] @
      str '' already exists in billing/models.py'']"
  by code_simp

subsection \<open>The hardcoded-password rule\<close>

lemma filter_scan_line:
  "filter (on_line m) (scan_line rt rel k line) = (if m = k then scan_line rt rel k line else [])"
  by (simp add: scan_line_def on_line_def)

lemma filter_scan_lines:
  "filter (on_line m) (concat (map (\<lambda>(k, l). scan_line rt rel k l) (enumerate a ls))) =
     (if a \<le> m \<and> m < a + length ls then scan_line rt rel m (ls ! (m - a)) else [])"
proof (induction ls arbitrary: a)
  case Nil
  then show ?case by auto
next
  case (Cons l ls)
  show ?case
  proof (cases "m = a")
    case True
    with Cons.IH[of "Suc a"] show ?thesis
      by (simp add: filter_scan_line)
  next
    case False
    then show ?thesis
      by (auto simp: Cons.IH filter_scan_line Suc_diff_le nth_Cons')
  qed
qed

lemma scan_file_line:
  "n < length (split_nl content) \<Longrightarrow>
   filter (on_line (Suc n)) (scan_file rt (rel, content)) =
     scan_line rt rel (Suc n) (split_nl content ! n)"
  by (simp add: scan_file_def filter_scan_lines)

lemma security_critical_count:
  "hardcoded_password_line rt line \<Longrightarrow>
   length (filter is_security_critical (scan_line rt rel k line)) =
     (if sql_injection_line rt line then 2 else 1)"
  by (simp add: scan_line_def hardcoded_password_line_def sql_injection_line_def
      is_security_critical_def)

lemma hardcoded_password_count:
  "hardcoded_password_line rt line \<Longrightarrow>
   length (filter is_hardcoded_password_finding (scan_line rt rel k line)) = 1"
  by (simp add: scan_line_def hardcoded_password_line_def is_hardcoded_password_finding_def
      is_security_critical_def)

text \<open>
  Claim C3 as the specification states it fails: the rules of the scanner are applied
  one after the other, and the SQL-injection rule also reports kind \<^verbatim>\<open>SECURITY\<close> with
  severity \<^verbatim>\<open>critical\<close>.  The file whose only line is \<open>sql_password_line\<close> matches the
  hardcoded-password rule without an environment lookup, and the scan has two such
  findings for line 1.
\<close>

theorem two_critical_findings_on_one_line:
  "hardcoded_password_line ascii_runtime sql_password_line \<and>
   length (filter is_security_critical
     (scan_file ascii_runtime (str ''shop/views.py'', sql_password_line))) = 2 \<and>
   list_all (on_line 1) (scan_file ascii_runtime (str ''shop/views.py'', sql_password_line))"
  by code_simp

text \<open>
  Claim C3, amended.  For every line of a scanned file that matches the
  hardcoded-password rule and has no environment lookup, the findings of that line hold
  exactly one with the description \<^verbatim>\<open>Hardcoded password detected\<close> (kind \<^verbatim>\<open>SECURITY\<close>,
  severity \<^verbatim>\<open>critical\<close>), whatever else is on the line; the findings of kind \<^verbatim>\<open>SECURITY\<close>
  and severity \<^verbatim>\<open>critical\<close> of that line are two when the line also matches the
  SQL-injection rule and one otherwise.
\<close>

theorem hardcoded_password_findings:
  assumes "n < length (split_nl content)"
    and "hardcoded_password_line rt (split_nl content ! n)"
  shows "length (filter is_hardcoded_password_finding
           (filter (on_line (Suc n)) (scan_file rt (rel, content)))) = 1 \<and>
         length (filter is_security_critical
           (filter (on_line (Suc n)) (scan_file rt (rel, content)))) =
           (if sql_injection_line rt (split_nl content ! n) then 2 else 1)"
  using assms
  by (simp only: scan_file_line security_critical_count hardcoded_password_count simp_thms)

text \<open>Line 2 of \<open>settings_text\<close>, which also carries a \<^verbatim>\<open>TODO\<close>.\<close>

theorem hardcoded_password_findings_witness:
  "1 < length (split_nl settings_text) \<and>
   hardcoded_password_line ascii_runtime (split_nl settings_text ! 1) \<and>
   length (filter is_hardcoded_password_finding
     (filter (on_line (Suc 1))
        (scan_file ascii_runtime (str ''shop/views.py'', settings_text)))) = 1 \<and>
   length (filter is_security_critical
     (filter (on_line (Suc 1))
        (scan_file ascii_runtime (str ''shop/views.py'', settings_text)))) = 1"
proof -
  have a: "1 < length (split_nl settings_text)"
    by code_simp
  have b: "hardcoded_password_line ascii_runtime (split_nl settings_text ! 1)"
    by code_simp
  have c: "\<not> sql_injection_line ascii_runtime (split_nl settings_text ! 1)"
    by code_simp
  show ?thesis
    using hardcoded_password_findings[OF a b, of "str ''shop/views.py''"] a b c
    by (simp only: if_False simp_thms)
qed

subsection \<open>Files under a test path\<close>

text \<open>
  The loops of \<^verbatim>\<open>_validate_pii_usage\<close> and \<^verbatim>\<open>_validate_logging_usage\<close> skip a file whose path
  contains \<^verbatim>\<open>test\<close>.
\<close>

lemma test_paths_skipped:
  "contains (str ''test'') (full_path p rel) \<Longrightarrow>
   validate_pii_file rt p config (rel, content) = []"
  "contains (str ''test'') (full_path p rel) \<Longrightarrow>
   validate_logging_file p config (rel, content) = []"
  by (simp_all add: validate_pii_file_def validate_logging_file_def)

text \<open>
  Claim C4, at an input where it fails.  The loop of \<^verbatim>\<open>_validate_magika_usage\<close> has no
  such test: in \<open>tests_project\<close> the only Python file is \<^verbatim>\<open>tests/views.py\<close>, upload
  validation is documented, and the run ends with a discrepancy for that file and status
  \<^verbatim>\<open>documentation_mismatch\<close>.
\<close>

theorem test_views_file_raises_discrepancy:
  "contains (str ''test'') (full_path tests_project (str ''tests/views.py'')) \<and>
   doc_discrepancies
     (after_validation remdups ascii_runtime tests_project readme_issue init_automation) =
     [\<lparr>doc_file = str ''docs/validation/magika.md'',
       doc_statement = str ''All file uploads should use validate_with_magika'',
       actual_code = str ''views.py handles files but doesn'' @ [squote] @
                     str ''t call validate_with_magika'',
       suggestion = str ''Add validation: validate_with_magika(uploaded_file)''\<rparr>] \<and>
   status (work_on_issue remdups ascii_runtime tests_project readme_issue) =
     str ''documentation_mismatch''"
  by code_simp

subsection \<open>The export scenario\<close>

lemma ascii_exact_ascii_runtime: "ascii_exact ascii_runtime"
  by (simp add: ascii_exact_def)

lemma ascii_text_suffix: "suffix t d \<Longrightarrow> ascii_text d \<Longrightarrow> ascii_text t"
  by (auto simp: ascii_text_def list_all_iff suffix_def)

lemma ascii_text_drop: "ascii_text s \<Longrightarrow> ascii_text (drop n s)"
  by (rule ascii_text_suffix[OF suffix_drop])

lemma ascii_text_dropWhile: "ascii_text s \<Longrightarrow> ascii_text (dropWhile P s)"
  by (rule ascii_text_suffix[OF suffix_dropWhile])

lemma takeWhile_ascii:
  assumes "ascii_text s" and "\<And>c. ascii_char c \<Longrightarrow> P c = Q c"
  shows "takeWhile P s = takeWhile Q s" and "dropWhile P s = dropWhile Q s"
  using assms by (auto simp: ascii_text_def list_all_iff intro: takeWhile_cong dropWhile_cong)

lemma lit_i_ascii:
  assumes "ascii_exact rt"
  shows "ascii_text w \<Longrightarrow> ascii_text s \<Longrightarrow> lit_i rt w s = lit_i ascii_runtime w s"
proof (induction w arbitrary: s)
  case Nil
  then show ?case by simp
next
  case (Cons a w)
  show ?case
  proof (cases s)
    case Nil
    then show ?thesis by simp
  next
    case (Cons b s')
    have ab: "ascii_char a" "ascii_char b" "ascii_text w" "ascii_text s'"
      using Cons.prems Cons by (simp_all add: ascii_text_def)
    have "ci_match rt a b = ci_match ascii_runtime a b"
      using assms ab(1,2) unfolding ascii_exact_def by blast
    then show ?thesis
      using Cons Cons.IH[OF ab(3,4)] by simp
  qed
qed

lemma lit_i_drop: "lit_i rt w s = Some r \<Longrightarrow> r = drop (length w) s"
  by (induction rt w s rule: lit_i.induct) (auto split: if_splits)

lemma re_search_cong_suffix:
  "(\<And>t. suffix t d \<Longrightarrow> m t = m' t) \<Longrightarrow> re_search m d = re_search m' d"
proof (induction d)
  case Nil
  then show ?case by simp
next
  case (Cons c cs)
  have "m (c # cs) = m' (c # cs)"
    by (rule Cons.prems) simp
  moreover have "re_search m cs = re_search m' cs"
    by (rule Cons.IH) (simp add: Cons.prems suffix_Cons)
  ultimately show ?case by (simp split: option.split)
qed

lemma match_hash_number_ascii:
  assumes "ascii_exact rt" "ascii_text s"
  shows "match_hash_number rt s = match_hash_number ascii_runtime s"
proof -
  have "takeWhile (isdecimal rt) (drop n s) = takeWhile (isdecimal ascii_runtime) (drop n s)"
    for n
    using assms by (intro takeWhile_ascii ascii_text_drop) (auto simp: ascii_exact_def)
  then show ?thesis
    by (simp add: match_hash_number_def lit_def)
qed

lemma match_issue_number_ascii:
  assumes "ascii_exact rt" "ascii_text s"
  shows "match_issue_number rt s = match_issue_number ascii_runtime s"
proof (cases "lit_i ascii_runtime (str ''issue'') s")
  case None
  then show ?thesis
    using lit_i_ascii[OF assms(1) _ assms(2), of "str ''issue''"]
    by (simp add: match_issue_number_def ascii_text_def str_def code_def ascii_char_def)
next
  case (Some r)
  then have r: "ascii_text r"
    using lit_i_drop[OF Some] assms(2) by (simp add: ascii_text_drop)
  have sp: "takeWhile (isspace rt) r = takeWhile (isspace ascii_runtime) r"
    "dropWhile (isspace rt) r = dropWhile (isspace ascii_runtime) r"
    using assms(1) r by (auto intro!: takeWhile_ascii simp: ascii_exact_def)
  have "ascii_text (dropWhile (isspace ascii_runtime) r)"
    using r by (rule ascii_text_dropWhile)
  then have dg: "takeWhile (isdecimal rt) (dropWhile (isspace ascii_runtime) r) =
                 takeWhile (isdecimal ascii_runtime) (dropWhile (isspace ascii_runtime) r)"
    using assms(1) by (auto intro!: takeWhile_ascii simp: ascii_exact_def)
  show ?thesis
    using Some lit_i_ascii[OF assms(1) _ assms(2), of "str ''issue''"] sp dg
    by (simp add: match_issue_number_def Let_def ascii_text_def str_def code_def ascii_char_def)
qed

lemma issue_number_of_ascii:
  assumes "ascii_exact rt" "ascii_text d"
  shows "issue_number_of rt d = issue_number_of ascii_runtime d"
proof -
  have "re_search (match_hash_number rt) d = re_search (match_hash_number ascii_runtime) d"
    by (rule re_search_cong_suffix)
       (simp add: match_hash_number_ascii[OF assms(1)] ascii_text_suffix[OF _ assms(2)])
  moreover have
    "re_search (match_issue_number rt) d = re_search (match_issue_number ascii_runtime) d"
    by (rule re_search_cong_suffix)
       (simp add: match_issue_number_ascii[OF assms(1)] ascii_text_suffix[OF _ assms(2)])
  ultimately show ?thesis
    by (simp add: issue_number_of_def split: option.split)
qed

lemma export_issue_ascii: "ascii_text export_issue"
  by code_simp

lemma export_issue_number_ascii: "issue_number_of ascii_runtime export_issue = Some (str ''42'')"
  by code_simp

lemma export_issue_has_pii_ascii:
  "list_ex (\<lambda>kw. contains kw (str_lower ascii_runtime export_issue)) pii_keywords"
  by code_simp

lemma export_issue_number:
  "ascii_exact rt \<Longrightarrow> issue_number_of rt export_issue = Some (str ''42'')"
  by (simp add: issue_number_of_ascii export_issue_ascii export_issue_number_ascii)

lemma export_issue_has_pii:
  assumes "ascii_exact rt"
  shows "list_ex (\<lambda>kw. contains kw (str_lower rt export_issue)) pii_keywords"
proof -
  have "str_lower rt export_issue = str_lower ascii_runtime export_issue"
    using assms export_issue_ascii by (simp add: ascii_exact_def)
  then show ?thesis
    using export_issue_has_pii_ascii by simp
qed

text \<open>
  Claim C5.  On the issue text
  \<^verbatim>\<open>Add endpoint POST /users/{id}/export - exports personal data, #42\<close>, in a project without
  the PII-masking document, a run whose validation finds no discrepancy and whose scan
  finds nothing halts with status \<^verbatim>\<open>need_clarification\<close>; the questions include the one
  on PII handling, and the parsed issue has number \<^verbatim>\<open>42\<close> and the PII flag set.  The text
  is ASCII, so this holds with every character table that is right on ASCII.
\<close>

theorem export_issue_needs_pii_clarification:
  assumes "ascii_exact rt"
    and "read_text p (str ''docs/security/pii_masking.md'') = None"
    and "doc_discrepancies (after_validation set_order rt p export_issue init_automation) = []"
    and "unrelated_issues (after_scan set_order rt p export_issue init_automation) = []"
  shows "work_on_issue set_order rt p export_issue =
           NeedClarification
             (get_clarification_questions rt
                (after_scan set_order rt p export_issue init_automation))
             (str ''I need clarification on these points:'') \<and>
         str ''How should PII be handled? I didn'' @ [squote] @ str ''t find PII masking docs.''
           \<in> set (get_clarification_questions rt
                    (after_scan set_order rt p export_issue init_automation)) \<and>
         number (issue_data (after_scan set_order rt p export_issue init_automation)) =
           Some (str ''42'') \<and>
         has_pii (issue_data (after_scan set_order rt p export_issue init_automation))"
proof -
  let ?s6 = "after_scan set_order rt p export_issue init_automation"
  have q: "str ''How should PII be handled? I didn'' @ [squote] @
           str ''t find PII masking docs.'' \<in> set (get_clarification_questions rt ?s6)"
    using export_issue_has_pii[OF assms(1)]
    by (simp add: get_clarification_questions_def no_pii_doc_config[OF assms(2)])
  then have ne: "get_clarification_questions rt ?s6 \<noteq> []"
    by auto
  have w: "work_on_issue set_order rt p export_issue =
        NeedClarification (get_clarification_questions rt ?s6)
          (str ''I need clarification on these points:'')"
    using assms(3,4) ne by (simp add: work_on_issue_cases Let_def)
  show ?thesis
    using q w export_issue_number[OF assms(1)] export_issue_has_pii[OF assms(1)] by simp
qed

text \<open>
  The run on \<open>users_project\<close>: the scan reads \<^verbatim>\<open>users/views.py\<close> and \<^verbatim>\<open>users/urls.py\<close> and
  finds nothing, and the questions are the one on PII handling and the one on logging.
\<close>

theorem export_issue_needs_pii_clarification_witness:
  "ascii_exact ascii_runtime \<and>
   read_text users_project (str ''docs/security/pii_masking.md'') = None \<and>
   doc_discrepancies
     (after_validation remdups ascii_runtime users_project export_issue init_automation) = [] \<and>
   unrelated_issues
     (after_scan remdups ascii_runtime users_project export_issue init_automation) = [] \<and>
   get_affected_files users_project
     (after_validation remdups ascii_runtime users_project export_issue init_automation) =
     files users_project \<and>
   work_on_issue remdups ascii_runtime users_project export_issue =
     NeedClarification
       [str ''How should PII be handled? I didn'' @ [squote] @ str ''t find PII masking docs.'',
        str ''What logging system should I use? I didn'' @ [squote] @
        str ''t find centralized logging docs.'']
       (str ''I need clarification on these points:'')"
proof -
  have a: "read_text users_project (str ''docs/security/pii_masking.md'') = None"
    by code_simp
  have b: "doc_discrepancies
     (after_validation remdups ascii_runtime users_project export_issue init_automation) = []"
    by code_simp
  have c: "unrelated_issues
     (after_scan remdups ascii_runtime users_project export_issue init_automation) = []"
    by code_simp
  have f: "get_affected_files users_project
     (after_validation remdups ascii_runtime users_project export_issue init_automation) =
     files users_project"
    by code_simp
  have q: "get_clarification_questions ascii_runtime
             (after_scan remdups ascii_runtime users_project export_issue init_automation) =
           [str ''How should PII be handled? I didn'' @ [squote] @
            str ''t find PII masking docs.'',
            str ''What logging system should I use? I didn'' @ [squote] @
            str ''t find centralized logging docs.'']"
    by code_simp
  show ?thesis
    using export_issue_needs_pii_clarification[OF ascii_exact_ascii_runtime a b c]
      ascii_exact_ascii_runtime a b c f q
    by simp
qed

subsection \<open>The order of the feature names\<close>

lemma fold_feature_keys:
  "fst ` set (fold (feature_step p) fs al) = {f \<in> set fs. f \<in> set (docs_dirs p)} \<union> fst ` set al"
  by (induction fs arbitrary: al) (auto simp: feature_step_def dom_update)

lemma fold_feature_distinct:
  "distinct (map fst al) \<Longrightarrow> distinct (map fst (fold (feature_step p) fs al))"
  by (induction fs arbitrary: al) (auto simp: feature_step_def distinct_update)

lemma fold_feature_length:
  "length (fold (feature_step p) fs []) = card {f \<in> set fs. f \<in> set (docs_dirs p)}"
proof -
  have "length (fold (feature_step p) fs []) = length (map fst (fold (feature_step p) fs []))"
    by simp
  also have "\<dots> = card (set (map fst (fold (feature_step p) fs [])))"
    by (rule distinct_card[symmetric]) (simp add: fold_feature_distinct)
  also have "\<dots> = card {f \<in> set fs. f \<in> set (docs_dirs p)}"
    using fold_feature_keys[of p fs "[]"] by simp
  finally show ?thesis .
qed

lemma read_feature_documentation_fold:
  "read_feature_documentation h rt p s =
     s\<lparr>feature_docs :=
         fold (feature_step p) (extract_feature_names h rt p s) (feature_docs s)\<rparr>"
  unfolding read_feature_documentation_def feature_step_def by simp

lemma feature_candidates_update [simp]:
  "feature_candidates rt p (s\<lparr>feature_docs := x\<rparr>) = feature_candidates rt p s"
  by (simp add: feature_candidates_def)

lemma validate_feature_docs_update:
  "validate_documentation_against_code rt p (s\<lparr>feature_docs := x\<rparr>) =
   (validate_documentation_against_code rt p s)\<lparr>feature_docs := x\<rparr>"
  by (simp add: validate_documentation_against_code_def validate_pii_usage_def
      validate_magika_usage_def validate_logging_usage_def Let_def)

lemma scan_feature_docs_update:
  "scan_for_unrelated_issues rt p (s\<lparr>feature_docs := x\<rparr>) =
   (scan_for_unrelated_issues rt p s)\<lparr>feature_docs := x\<rparr>"
  by (simp add: scan_for_unrelated_issues_def get_affected_files_def)

lemma handlers_feature_docs_update [simp]:
  "handle_documentation_discrepancies (s\<lparr>feature_docs := x\<rparr>) =
   handle_documentation_discrepancies s"
  "handle_unrelated_issues (s\<lparr>feature_docs := x\<rparr>) = handle_unrelated_issues s"
  "get_clarification_questions rt (s\<lparr>feature_docs := x\<rparr>) = get_clarification_questions rt s"
  "check_breaking_changes p (s\<lparr>feature_docs := x\<rparr>) = check_breaking_changes p s"
  by (simp_all add: handle_documentation_discrepancies_def handle_unrelated_issues_def
      get_clarification_questions_def check_breaking_changes_def)

lemma plan_feature_docs_length:
  assumes "length x = length y"
  shows "create_validated_plan rt (s\<lparr>feature_docs := x\<rparr>) =
         create_validated_plan rt (s\<lparr>feature_docs := y\<rparr>)"
proof -
  have sel:
    "issue_data (s\<lparr>feature_docs := z\<rparr>) = issue_data s"
    "pii_config (s\<lparr>feature_docs := z\<rparr>) = pii_config s"
    "magika_config (s\<lparr>feature_docs := z\<rparr>) = magika_config s"
    "logging_config (s\<lparr>feature_docs := z\<rparr>) = logging_config s"
    "unrelated_issues (s\<lparr>feature_docs := z\<rparr>) = unrelated_issues s"
    "feature_docs (s\<lparr>feature_docs := z\<rparr>) = z" for z
    by simp_all
  show ?thesis
    unfolding create_validated_plan_def sel assms by (rule refl)
qed

lemma after_validation_factored:
  "after_validation h rt p d init_automation =
     (validated_base rt p d)\<lparr>feature_docs := features_read h rt p d\<rparr>"
  by (simp add: after_validation_def Let_def read_feature_documentation_fold
      validate_feature_docs_update validated_base_def features_read_def
      extract_feature_names_def deep_documentation_read_def init_automation_def)

lemma features_read_length:
  assumes "lists_sets h1" "lists_sets h2"
  shows "length (features_read h1 rt p d) = length (features_read h2 rt p d)"
proof -
  have "set (h1 xs) = set (h2 xs)" for xs
    using assms by (simp add: lists_sets_def)
  then show ?thesis
    by (simp add: features_read_def fold_feature_length)
qed

lemma lists_sets_remdups: "lists_sets remdups"
  by (simp add: lists_sets_def)

lemma lists_sets_rev_remdups: "lists_sets (\<lambda>xs. rev (remdups xs))"
  by (simp add: lists_sets_def)

text \<open>
  Claim C6.  The model is a function of the project snapshot, the issue text and the
  order in which \<^verbatim>\<open>list(set(features))\<close> lists the feature names, the one thing that can
  differ between two runs of the program on the same input.  The outcome does not depend
  on it: two runs with any two listings of the set return equal outcomes, the same
  constructor with the same fields in the same order.
\<close>

theorem outcome_independent_of_set_order:
  assumes "lists_sets h1" and "lists_sets h2"
  shows "work_on_issue h1 rt p d = work_on_issue h2 rt p d"
proof -
  have "work_on_issue h rt p d =
          (let s4 = validated_base rt p d; s6 = scan_for_unrelated_issues rt p s4 in
           if doc_discrepancies s4 \<noteq> [] then handle_documentation_discrepancies s4
           else if unrelated_issues s6 \<noteq> [] then handle_unrelated_issues s6
           else if get_clarification_questions rt s6 \<noteq> []
             then NeedClarification (get_clarification_questions rt s6)
                    (str ''I need clarification on these points:'')
           else if check_breaking_changes p s6 \<noteq> []
             then BreakingChangesWarning (check_breaking_changes p s6)
                    (warning_sign @ str ''  These changes might break existing code. Continue?'')
           else ApprovalNeeded
                  (create_validated_plan rt (s6\<lparr>feature_docs := features_read h rt p d\<rparr>))
                  (str ''Implementation plan (validated against your docs). '' @
                   str ''Proceed? (yes/no)''))"
    for h
    by (simp add: work_on_issue_cases after_scan_def after_validation_factored
        scan_feature_docs_update Let_def)
  then show ?thesis
    using plan_feature_docs_length[OF features_read_length[OF assms]]
    by (simp add: Let_def)
qed

text \<open>
  The run on \<open>catalog_project\<close> with two listings that give the three feature names in
  opposite orders.
\<close>

theorem outcome_independent_of_set_order_witness:
  "lists_sets remdups \<and> lists_sets (\<lambda>xs. rev (remdups xs)) \<and>
   extract_feature_names remdups ascii_runtime catalog_project
     ((deep_documentation_read ascii_runtime catalog_project init_automation)
        \<lparr>issue_data := parse_issue ascii_runtime catalog_issue\<rparr>) =
     [str ''report'', str ''user'', str ''api''] \<and>
   extract_feature_names (\<lambda>xs. rev (remdups xs)) ascii_runtime catalog_project
     ((deep_documentation_read ascii_runtime catalog_project init_automation)
        \<lparr>issue_data := parse_issue ascii_runtime catalog_issue\<rparr>) =
     [str ''api'', str ''user'', str ''report''] \<and>
   work_on_issue remdups ascii_runtime catalog_project catalog_issue =
     work_on_issue (\<lambda>xs. rev (remdups xs)) ascii_runtime catalog_project catalog_issue \<and>
   status (work_on_issue remdups ascii_runtime catalog_project catalog_issue) =
     str ''approval_needed''"
proof -
  have a: "extract_feature_names remdups ascii_runtime catalog_project
     ((deep_documentation_read ascii_runtime catalog_project init_automation)
        \<lparr>issue_data := parse_issue ascii_runtime catalog_issue\<rparr>) =
     [str ''report'', str ''user'', str ''api'']"
    by code_simp
  have b: "extract_feature_names (\<lambda>xs. rev (remdups xs)) ascii_runtime catalog_project
     ((deep_documentation_read ascii_runtime catalog_project init_automation)
        \<lparr>issue_data := parse_issue ascii_runtime catalog_issue\<rparr>) =
     [str ''api'', str ''user'', str ''report'']"
    by code_simp
  have c: "status (work_on_issue remdups ascii_runtime catalog_project catalog_issue) =
           str ''approval_needed''"
    by code_simp
  show ?thesis
    using outcome_independent_of_set_order[OF lists_sets_remdups lists_sets_rev_remdups,
        of ascii_runtime catalog_project catalog_issue]
      lists_sets_remdups lists_sets_rev_remdups a b c
    by simp
qed

subsection \<open>The required symbol\<close>

text \<open>
  Claim C7.  For each of the three topics, a file whose text contains the required symbol
  of the topic (the documented name, or the default name of the check) gives no
  discrepancy for that topic, whatever its path and whatever else it contains.
\<close>

theorem required_symbol_silences_file:
  "(contains (get_or config (str ''masking_function'') (str ''GlobalPIIMasker'')) content \<longrightarrow>
      validate_pii_file rt p config (rel, content) = []) \<and>
   (contains (get_or config (str ''validation_function'') (str ''validate_with_magika''))
      content \<longrightarrow>
      validate_magika_file config (rel, content) = []) \<and>
   (contains (get_or config (str ''logger_function'') (str ''get_logger'')) content \<longrightarrow>
      validate_logging_file p config (rel, content) = [])"
  by (simp add: validate_pii_file_def validate_magika_file_def validate_logging_file_def Let_def)

text \<open>
  A file with a PII keyword, \<^verbatim>\<open>request.FILES\<close> and a \<^verbatim>\<open>print\<close> call that uses all three
  symbols gives nothing; \<open>careless_text\<close>, with the same three signals and none of the
  symbols, gives a discrepancy for each topic.
\<close>

theorem required_symbol_silences_file_witness:
  "list_ex (\<lambda>word. contains word (str_lower ascii_runtime compliant_text)) pii_words \<and>
   contains (str ''request.FILES'') compliant_text \<and>
   contains (str ''print('') compliant_text \<and>
   contains (get_or masker_config (str ''masking_function'') (str ''GlobalPIIMasker''))
     compliant_text \<and>
   contains (get_or masker_config (str ''validation_function'') (str ''validate_with_magika''))
     compliant_text \<and>
   contains (get_or masker_config (str ''logger_function'') (str ''get_logger''))
     compliant_text \<and>
   validate_pii_file ascii_runtime users_project masker_config
     (str ''shop/views.py'', compliant_text) = [] \<and>
   validate_magika_file masker_config (str ''shop/views.py'', compliant_text) = [] \<and>
   validate_logging_file users_project masker_config (str ''shop/views.py'', compliant_text) = [] \<and>
   validate_pii_file ascii_runtime users_project masker_config
     (str ''shop/views.py'', careless_text) \<noteq> [] \<and>
   validate_magika_file masker_config (str ''shop/views.py'', careless_text) \<noteq> [] \<and>
   validate_logging_file users_project masker_config (str ''shop/views.py'', careless_text) \<noteq> []"
proof -
  have s: "list_ex (\<lambda>word. contains word (str_lower ascii_runtime compliant_text)) pii_words \<and>
           contains (str ''request.FILES'') compliant_text \<and>
           contains (str ''print('') compliant_text"
    by code_simp
  have a: "contains (get_or masker_config (str ''masking_function'') (str ''GlobalPIIMasker''))
             compliant_text"
    by code_simp
  have b: "contains
             (get_or masker_config (str ''validation_function'') (str ''validate_with_magika''))
             compliant_text"
    by code_simp
  have c: "contains (get_or masker_config (str ''logger_function'') (str ''get_logger''))
             compliant_text"
    by code_simp
  have d: "validate_pii_file ascii_runtime users_project masker_config
             (str ''shop/views.py'', careless_text) \<noteq> [] \<and>
           validate_magika_file masker_config (str ''shop/views.py'', careless_text) \<noteq> [] \<and>
           validate_logging_file users_project masker_config
             (str ''shop/views.py'', careless_text) \<noteq> []"
    by code_simp
  show ?thesis
    using required_symbol_silences_file[of masker_config compliant_text ascii_runtime
        users_project "str ''shop/views.py''"] s a b c d
    by blast
qed

subsection \<open>Undocumented topics\<close>










subsection \<open>Issues that touch personal data\<close>

text \<open>
  Claim C9.  An issue text whose lower-case form contains one of the PII keywords never
  ends with status \<^verbatim>\<open>approval_needed\<close>: when the run reaches the clarification stage (no
  discrepancy, no finding) it halts there, and the questions hold the PII question, the
  one that names the documented masker when there is one and the one that reports
  missing documentation otherwise.
\<close>

theorem pii_issue_never_ready:
  assumes "kw \<in> set pii_keywords" and "contains kw (str_lower rt d)"
  shows "status (work_on_issue set_order rt p d) \<noteq> str ''approval_needed'' \<and>
         (doc_discrepancies (after_validation set_order rt p d init_automation) = [] \<and>
          unrelated_issues (after_scan set_order rt p d init_automation) = [] \<longrightarrow>
          work_on_issue set_order rt p d =
            NeedClarification
              (get_clarification_questions rt (after_scan set_order rt p d init_automation))
              (str ''I need clarification on these points:'') \<and>
          (if truthy (map_of (pii_config (after_scan set_order rt p d init_automation))
                (str ''masking_function''))
           then str ''Should I use '' @
                get_or (pii_config (after_scan set_order rt p d init_automation))
                  (str ''masking_function'') [] @ str '' for PII as documented?''
           else str ''How should PII be handled? I didn'' @ [squote] @
                str ''t find PII masking docs.'')
          \<in> set (get_clarification_questions rt (after_scan set_order rt p d init_automation)))"
proof -
  let ?s6 = "after_scan set_order rt p d init_automation"
  let ?q = "if truthy (map_of (pii_config ?s6) (str ''masking_function''))
            then str ''Should I use '' @ get_or (pii_config ?s6) (str ''masking_function'') [] @
                 str '' for PII as documented?''
            else str ''How should PII be handled? I didn'' @ [squote] @
                 str ''t find PII masking docs.''"
  have "has_pii (issue_data ?s6)"
    using assms by (auto simp: list_ex_iff)
  then have q: "?q \<in> set (get_clarification_questions rt ?s6)"
    by (simp add: get_clarification_questions_def)
  then have ne: "get_clarification_questions rt ?s6 \<noteq> []"
    by auto
  have w: "status (work_on_issue set_order rt p d) \<noteq> str ''approval_needed''"
    using ne by (simp add: work_on_issue_cases Let_def)
  have c: "doc_discrepancies (after_validation set_order rt p d init_automation) = [] \<and>
           unrelated_issues ?s6 = [] \<longrightarrow>
           work_on_issue set_order rt p d =
             NeedClarification (get_clarification_questions rt ?s6)
               (str ''I need clarification on these points:'')"
    using ne by (simp add: work_on_issue_cases Let_def)
  show ?thesis
    using w c q by blast
qed

text \<open>
  The run on \<open>masked_project\<close> and \<open>mask_issue\<close>: the keyword is in the text in upper case
  only, the masker is documented, validation and scan find nothing, and the only question
  is the one that names the masker.  On the same project \<open>readme_issue\<close>, which names no
  PII keyword, ends with status \<^verbatim>\<open>approval_needed\<close>.
\<close>

theorem pii_issue_never_ready_witness:
  "str ''pii'' \<in> set pii_keywords \<and>
   contains (str ''pii'') (str_lower ascii_runtime mask_issue) \<and>
   \<not> contains (str ''pii'') mask_issue \<and>
   doc_discrepancies
     (after_validation remdups ascii_runtime masked_project mask_issue init_automation) = [] \<and>
   unrelated_issues
     (after_scan remdups ascii_runtime masked_project mask_issue init_automation) = [] \<and>
   work_on_issue remdups ascii_runtime masked_project mask_issue =
     NeedClarification [str ''Should I use GlobalPIIMasker for PII as documented?'']
       (str ''I need clarification on these points:'') \<and>
   \<not> has_pii (parse_issue ascii_runtime readme_issue) \<and>
   status (work_on_issue remdups ascii_runtime masked_project readme_issue) =
     str ''approval_needed''"
proof -
  have a: "str ''pii'' \<in> set pii_keywords"
    by code_simp
  have b: "contains (str ''pii'') (str_lower ascii_runtime mask_issue)"
    by code_simp
  have n: "\<not> contains (str ''pii'') mask_issue"
    by code_simp
  have c: "doc_discrepancies
     (after_validation remdups ascii_runtime masked_project mask_issue init_automation) = []"
    by code_simp
  have d: "unrelated_issues
     (after_scan remdups ascii_runtime masked_project mask_issue init_automation) = []"
    by code_simp
  have q: "get_clarification_questions ascii_runtime
             (after_scan remdups ascii_runtime masked_project mask_issue init_automation) =
           [str ''Should I use GlobalPIIMasker for PII as documented?'']"
    by code_simp
  have r: "\<not> has_pii (parse_issue ascii_runtime readme_issue) \<and>
           status (work_on_issue remdups ascii_runtime masked_project readme_issue) =
             str ''approval_needed''"
    by code_simp
  show ?thesis
    using pii_issue_never_ready[OF a b, of remdups masked_project] a b n c d q r by simp
qed

subsection \<open>Issues without an endpoint\<close>

lemma match_endpoint_Nil [simp]: "match_endpoint rt [] = None"
  by (simp add: match_endpoint_def http_methods_def str_def)

lemma finditer_endpoints_empty:
  "finditer_endpoints rt d = [] \<longleftrightarrow> \<not> has_endpoint_pattern rt d"
  unfolding has_endpoint_pattern_def
  by (induction rt d rule: finditer_endpoints.induct) (auto split: option.splits)

lemma endpoints_empty:
  "endpoints (parse_issue rt d) = [] \<longleftrightarrow> \<not> has_endpoint_pattern rt d"
  by (simp add: parse_issue_def finditer_endpoints_empty)

text \<open>
  The search finds a match exactly where the pattern has an occurrence; from right to
  left this uses that the slash is no white space character.
\<close>

lemma lit_i_iff:
  "lit_i rt w s = Some r \<longleftrightarrow> (\<exists>m. s = m @ r \<and> list_all2 (ci_match rt) w m)"
proof (induction w arbitrary: s)
  case Nil
  then show ?case by auto
next
  case (Cons a w)
  show ?case
  proof (cases s)
    case Nil
    then show ?thesis by simp
  next
    case (Cons b s')
    show ?thesis
    proof
      assume "lit_i rt (a # w) s = Some r"
      then have ab: "ci_match rt a b" and "lit_i rt w s' = Some r"
        using Cons by (auto split: if_splits)
      then obtain m where "s' = m @ r" "list_all2 (ci_match rt) w m"
        using Cons.IH by blast
      then have "s = (b # m) @ r \<and> list_all2 (ci_match rt) (a # w) (b # m)"
        using Cons ab by simp
      then show "\<exists>m. s = m @ r \<and> list_all2 (ci_match rt) (a # w) m"
        by blast
    next
      assume "\<exists>m. s = m @ r \<and> list_all2 (ci_match rt) (a # w) m"
      then obtain m where m: "s = m @ r" "list_all2 (ci_match rt) (a # w) m"
        by blast
      then obtain b' m' where m': "m = b' # m'" "ci_match rt a b'" "list_all2 (ci_match rt) w m'"
        by (auto simp: list_all2_Cons1)
      then have "lit_i rt w s' = Some r"
        using Cons m Cons.IH by auto
      then show "lit_i rt (a # w) s = Some r"
        using Cons m m' by simp
    qed
  qed
qed

lemma first_some_None_iff: "first_some xs = None \<longleftrightarrow> (\<forall>x \<in> set xs. x = None)"
  by (induction xs rule: first_some.induct) auto

lemma endpoint_tail_Some:
  assumes "endpoint_tail rt m r = Some y"
  shows "\<exists>ws cs rest. r = ws @ [code CHR ''/''] @ cs @ rest \<and> ws \<noteq> [] \<and>
           list_all (isspace rt) ws \<and> cs \<noteq> [] \<and> list_all (is_path_char rt) cs"
proof -
  from assms obtain r' where
    d: "dropWhile (isspace rt) r = code CHR ''/'' # r'" and
    ws: "takeWhile (isspace rt) r \<noteq> []" and
    cs: "takeWhile (is_path_char rt) r' \<noteq> []"
    by (auto simp: endpoint_tail_def split: list.splits if_splits)
  have "r = takeWhile (isspace rt) r @ dropWhile (isspace rt) r"
    by simp
  also have "\<dots> = takeWhile (isspace rt) r @ [code CHR ''/''] @
             takeWhile (is_path_char rt) r' @ dropWhile (is_path_char rt) r'"
    by (simp add: d)
  finally have "r = takeWhile (isspace rt) r @ [code CHR ''/''] @
             takeWhile (is_path_char rt) r' @ dropWhile (is_path_char rt) r'" .
  moreover have "list_all (isspace rt) (takeWhile (isspace rt) r)"
    "list_all (is_path_char rt) (takeWhile (is_path_char rt) r')"
    by (auto simp: list_all_iff dest: set_takeWhileD)
  ultimately show ?thesis
    using ws cs by blast
qed

lemma endpoint_tail_found:
  assumes "\<not> isspace rt (code CHR ''/'')"
    and "ws \<noteq> []" "list_all (isspace rt) ws" "cs \<noteq> []" "list_all (is_path_char rt) cs"
  shows "endpoint_tail rt m (ws @ [code CHR ''/''] @ cs @ rest) \<noteq> None"
proof -
  have ws: "\<forall>x \<in> set ws. isspace rt x"
    using assms(3) by (simp add: list_all_iff)
  have d: "dropWhile (isspace rt) (ws @ [code CHR ''/''] @ cs @ rest) =
           code CHR ''/'' # cs @ rest"
    using ws assms(1) by (simp add: dropWhile_append3)
  have t: "takeWhile (isspace rt) (ws @ [code CHR ''/''] @ cs @ rest) = ws"
    using ws assms(1) by (simp add: takeWhile_tail)
  obtain c cs' where c: "cs = c # cs'" "is_path_char rt c"
    using assms(4,5) by (cases cs) auto
  then have p: "takeWhile (is_path_char rt) (cs @ rest) \<noteq> []"
    by simp
  show ?thesis
    using d t p assms(2) by (simp add: endpoint_tail_def)
qed

lemma match_endpoint_occurs:
  assumes "match_endpoint rt t \<noteq> None"
  shows "\<exists>w m ws cs rest. t = m @ ws @ [code CHR ''/''] @ cs @ rest \<and>
           w \<in> set http_methods \<and> list_all2 (ci_match rt) w m \<and>
           ws \<noteq> [] \<and> list_all (isspace rt) ws \<and> cs \<noteq> [] \<and> list_all (is_path_char rt) cs"
proof -
  from assms obtain y where "match_endpoint rt t = Some y"
    by auto
  from first_some_in[OF this[unfolded match_endpoint_def]]
  obtain w r where w: "w \<in> set http_methods" and l: "lit_i rt w t = Some r"
    and e: "endpoint_tail rt (take (length w) t) r = Some y"
    by (auto split: option.splits)
  from l obtain m where m: "t = m @ r" "list_all2 (ci_match rt) w m"
    using lit_i_iff by blast
  from endpoint_tail_Some[OF e] obtain ws cs rest where
    "r = ws @ [code CHR ''/''] @ cs @ rest" "ws \<noteq> []" "list_all (isspace rt) ws"
    "cs \<noteq> []" "list_all (is_path_char rt) cs"
    by blast
  then show ?thesis
    using w m by blast
qed

lemma occurs_match_endpoint:
  assumes "\<not> isspace rt (code CHR ''/'')"
    and "w \<in> set http_methods" "list_all2 (ci_match rt) w m"
    and "ws \<noteq> []" "list_all (isspace rt) ws" "cs \<noteq> []" "list_all (is_path_char rt) cs"
  shows "match_endpoint rt (m @ ws @ [code CHR ''/''] @ cs @ rest) \<noteq> None"
proof -
  let ?r = "ws @ [code CHR ''/''] @ cs @ rest"
  have l: "lit_i rt w (m @ ?r) = Some ?r"
    using assms(3) lit_i_iff by blast
  have e: "endpoint_tail rt (take (length w) (m @ ?r)) ?r \<noteq> None"
    by (rule endpoint_tail_found[OF assms(1,4,5,6,7)])
  have "(case lit_i rt w (m @ ?r) of None \<Rightarrow> None
         | Some r \<Rightarrow> endpoint_tail rt (take (length w) (m @ ?r)) r) \<noteq> None"
    unfolding l option.case by (rule e)
  then show ?thesis
    unfolding match_endpoint_def first_some_None_iff using assms(2) by auto
qed

lemma has_endpoint_pattern_occurs:
  "has_endpoint_pattern rt d \<Longrightarrow> endpoint_occurs rt d"
proof -
  assume "has_endpoint_pattern rt d"
  then obtain t where t: "suffix t d" "match_endpoint rt t \<noteq> None"
    by (auto simp: has_endpoint_pattern_def list_ex_iff)
  from t(1) obtain before where "d = before @ t"
    by (auto simp: suffix_def)
  then show ?thesis
    using match_endpoint_occurs[OF t(2)] unfolding endpoint_occurs_def by blast
qed

lemma endpoint_occurs_has_pattern:
  assumes "\<not> isspace rt (code CHR ''/'')" and "endpoint_occurs rt d"
  shows "has_endpoint_pattern rt d"
proof -
  from assms(2) obtain before w m ws cs rest where
    d: "d = before @ m @ ws @ [code CHR ''/''] @ cs @ rest" and
    w: "w \<in> set http_methods" "list_all2 (ci_match rt) w m"
      "ws \<noteq> []" "list_all (isspace rt) ws" "cs \<noteq> []" "list_all (is_path_char rt) cs"
    unfolding endpoint_occurs_def by blast
  let ?t = "m @ ws @ [code CHR ''/''] @ cs @ rest"
  have "suffix ?t d"
    unfolding d by (rule suffix_appendI) (rule suffix_order.refl)
  then have "?t \<in> set (suffixes d)"
    by (simp only: in_set_suffixes)
  moreover have "match_endpoint rt ?t \<noteq> None"
    by (rule occurs_match_endpoint[OF assms(1) w])
  ultimately show ?thesis
    unfolding has_endpoint_pattern_def list_ex_iff by (rule bexI[rotated])
qed

text \<open>
  Claim C10.  When the endpoint pattern (one of the five HTTP method names in any case,
  white space, then a slash and a path) matches nowhere in the issue text, the list of
  affected files is empty whatever the project holds, the scan adds no finding, and the
  run does not end with status \<^verbatim>\<open>unrelated_issues_found\<close>.
\<close>

theorem no_endpoint_no_triage:
  assumes "\<not> has_endpoint_pattern rt d"
  shows "get_affected_files p (after_validation set_order rt p d init_automation) = [] \<and>
         unrelated_issues (after_scan set_order rt p d init_automation) = [] \<and>
         status (work_on_issue set_order rt p d) \<noteq> str ''unrelated_issues_found''"
proof -
  have a: "get_affected_files p (after_validation set_order rt p d init_automation) = []"
    using assms by (simp add: get_affected_files_def endpoints_empty)
  have u: "unrelated_issues (after_scan set_order rt p d init_automation) = []"
    using a by (simp add: after_scan_unrelated init_fields)
  show ?thesis
    using a u by (simp add: work_on_issue_cases Let_def)
qed

text \<open>
  The run on \<open>todo_project\<close> and \<open>readme_issue\<close> passes the validation without a
  discrepancy; \<^verbatim>\<open>media/views.py\<close> has a finding to report, but it is not among the affected
  files, and the run ends with status \<^verbatim>\<open>approval_needed\<close>.  With \<open>items_issue\<close>, which
  names an endpoint, the same project ends with status \<^verbatim>\<open>unrelated_issues_found\<close>.
\<close>

theorem no_endpoint_no_triage_witness:
  "\<not> has_endpoint_pattern ascii_runtime readme_issue \<and>
   doc_discrepancies
     (after_validation remdups ascii_runtime todo_project readme_issue init_automation) = [] \<and>
   concat (map (scan_file ascii_runtime) (glob_named todo_project (str ''views.py''))) \<noteq> [] \<and>
   get_affected_files todo_project
     (after_validation remdups ascii_runtime todo_project readme_issue init_automation) = [] \<and>
   status (work_on_issue remdups ascii_runtime todo_project readme_issue) =
     str ''approval_needed'' \<and>
   has_endpoint_pattern ascii_runtime items_issue \<and>
   status (work_on_issue remdups ascii_runtime todo_project items_issue) =
     str ''unrelated_issues_found''"
proof -
  have a: "\<not> has_endpoint_pattern ascii_runtime readme_issue"
    by code_simp
  have b: "doc_discrepancies
     (after_validation remdups ascii_runtime todo_project readme_issue init_automation) = []"
    by code_simp
  have c: "concat (map (scan_file ascii_runtime) (glob_named todo_project (str ''views.py'')))
           \<noteq> []"
    by code_simp
  have d: "status (work_on_issue remdups ascii_runtime todo_project readme_issue) =
           str ''approval_needed''"
    by code_simp
  have e: "has_endpoint_pattern ascii_runtime items_issue"
    by code_simp
  have f: "status (work_on_issue remdups ascii_runtime todo_project items_issue) =
           str ''unrelated_issues_found''"
    by code_simp
  show ?thesis
    using no_endpoint_no_triage[OF a, of todo_project remdups] a b c d e f by simp
qed

end
